theory Spec2Isabelle
  imports Main "HOL-Library.Word"
begin

unbundle bit_operations_syntax

section \<open>The CRUD request and response descriptor (crud\_file\_io.c)\<close>

text \<open>
  A \<open>CrudRequest\<close> and a \<open>CrudResponse\<close> are 64-bit unsigned values. The parameters of
  the codec have the C types of the source: \<open>uint32_t\<close> for the object identifier and
  the length, \<open>uint8_t\<close> for the request type, the flags and the result.
\<close>

type_synonym CrudRequest = "64 word"
type_synonym CrudResponse = "64 word"
type_synonym byte = "8 word"

record CRParsed =
  oID :: "32 word"
  req :: "8 word"
  length_p :: "32 word"
  flags :: "8 word"
  res :: "8 word"

text \<open>
  \<open>convert_to_CrudRequest\<close>: the mask for the length is computed as in the source,
  \<open>(~bitWork) >> 8\<close> on a 32-bit zero; every field is masked, widened to 64 bits and
  shifted into its place.
\<close>

definition convert_to_CrudRequest ::
  "32 word \<Rightarrow> 8 word \<Rightarrow> 32 word \<Rightarrow> 8 word \<Rightarrow> 8 word \<Rightarrow> CrudRequest" where
  "convert_to_CrudRequest oid rq len fl rs =
     (let bitWork = drop_bit 8 (NOT (0 :: 32 word));
          len1 = len AND bitWork;
          rq1 = rq AND 15;
          fl1 = fl AND 7;
          rs1 = rs AND 1;
          convertedValue = push_bit 32 (ucast oid :: 64 word);
          convertedValue = convertedValue OR push_bit 28 (ucast rq1);
          convertedValue = convertedValue OR push_bit 4 (ucast len1);
          convertedValue = convertedValue OR push_bit 1 (ucast fl1);
          convertedValue = convertedValue OR ucast rs1
      in convertedValue)"

definition parse_CrudResponse :: "CrudResponse \<Rightarrow> CRParsed" where
  "parse_CrudResponse parseThis =
     (let lengthBits = drop_bit 8 (NOT (0 :: 32 word))
      in \<lparr> oID = ucast (drop_bit 32 parseThis),
           req = ucast (drop_bit 28 parseThis AND 15),
           length_p = ucast (drop_bit 4 parseThis AND ucast lengthBits),
           flags = ucast (drop_bit 1 parseThis AND 7),
           res = ucast (parseThis AND 1) \<rparr>)"

section \<open>Constants of the missing headers\<close>

text \<open>
  Modelled from the spec: the header that declares the request types (\<open>CRUD_INIT\<close> ...
  \<open>CRUD_CLOSE\<close>) and the flags is not among the sources. Section 6 of the specification
  lists the operation codes of the 4-bit field in the order INIT, FORMAT, CREATE, READ,
  UPDATE, DELETE, CLOSE; they are numbered from 0 in that order, as a C enumeration is.
  The flag that marks the directory object is the lowest flag bit; the null flag is 0.
\<close>

definition CRUD_INIT :: "8 word" where "CRUD_INIT = 0"
definition CRUD_FORMAT :: "8 word" where "CRUD_FORMAT = 1"
definition CRUD_CREATE :: "8 word" where "CRUD_CREATE = 2"
definition CRUD_READ :: "8 word" where "CRUD_READ = 3"
definition CRUD_UPDATE :: "8 word" where "CRUD_UPDATE = 4"
definition CRUD_DELETE :: "8 word" where "CRUD_DELETE = 5"
definition CRUD_CLOSE :: "8 word" where "CRUD_CLOSE = 6"

definition CRUD_NULL_FLAG :: "8 word" where "CRUD_NULL_FLAG = 0"
definition CRUD_PRIORITY_OBJECT :: "8 word" where "CRUD_PRIORITY_OBJECT = 1"

section \<open>The file allocation table and the state of the client\<close>

text \<open>
  Modelled from the spec: the declaration of \<open>CrudFileAllocationType\<close> is in the missing
  header \<open>crud_file_io.h\<close>. The fields are the ones the source reads and writes
  (\<open>filename\<close>, \<open>object_id\<close>, \<open>position\<close>, \<open>length\<close>, \<open>open\<close>); the identifier, the
  position and the length are unsigned 32-bit values (the source passes them as the
  \<open>uint32_t\<close> parameters of \<open>convert_to_CrudRequest\<close> and compares the position with the
  \<open>uint32_t\<close> argument of \<open>crud_seek\<close>), the open flag is a byte. The file name is a C
  string, modelled by its characters before the terminating NUL.
\<close>

record CrudFileAllocationType =
  filename :: string
  object_id :: "32 word"
  position :: "32 word"
  length_f :: "32 word"
  open_f :: "8 word"

text \<open>
  What a call can do besides returning: access memory outside an object (undefined
  behaviour in C), or never return (a read or write loop of the transport that makes no
  progress).
\<close>

datatype fault = OutOfBounds | Hang

text \<open>
  The state of the client: the global \<open>InitFlag\<close>, the global \<open>crud_file_table\<close> (a list:
  its length is the array size \<open>CRUD_MAX_TOTAL_FILES\<close>, a constant of the missing
  header), whether \<open>socket_fd\<close> is a connected socket, and the state of the remote store.
  \<open>issued\<close> and \<open>payloads\<close> are not variables of the program: \<open>issued\<close> records every
  request that was sent with the response received for it, and \<open>payloads\<close> the bytes that
  were sent after each of these requests (in the same order), so that properties about
  which requests a call issues, and with which contents, can be stated.
\<close>

record 'srv world =
  InitFlag :: int
  crud_file_table :: "CrudFileAllocationType list"
  connected :: bool
  remote :: 'srv
  issued :: "(CrudRequest \<times> CrudResponse) list"
  payloads :: "byte list list"

text \<open>
  What the program takes from outside. \<open>net_connect\<close>: whether \<open>socket\<close>, \<open>inet_aton\<close>
  and \<open>connect\<close> all succeed. \<open>net_serve\<close>: the peer, which consumes a descriptor and the
  payload sent after it and answers with a descriptor and the bytes that follow it on
  the stream. \<open>heap_junk\<close>: the contents of freshly allocated memory. \<open>table_bytes\<close> and
  \<open>bytes_entry\<close>: the byte image of the table in memory and the entry that slot \<open>i\<close> of
  an image holds (the layout of the struct is the compiler's). \<open>CRUD_MAX_PATH_LENGTH\<close>
  is a constant of the missing header.
\<close>

record 'srv crud_env =
  net_connect :: "'srv \<Rightarrow> bool"
  net_serve :: "'srv \<Rightarrow> CrudRequest \<Rightarrow> byte list \<Rightarrow> CrudResponse \<times> byte list \<times> 'srv"
  heap_junk :: "nat \<Rightarrow> byte"
  table_bytes :: "CrudFileAllocationType list \<Rightarrow> byte list"
  bytes_entry :: "byte list \<Rightarrow> nat \<Rightarrow> CrudFileAllocationType"
  CRUD_MAX_PATH_LENGTH :: nat

definition CRUD_MAX_TOTAL_FILES :: "'srv world \<Rightarrow> nat" where
  "CRUD_MAX_TOTAL_FILES w = length (crud_file_table w)"

subsection \<open>Memory\<close>

definition malloc_m :: "'srv crud_env \<Rightarrow> nat \<Rightarrow> byte list" where
  "malloc_m env n = map (heap_junk env) [0..<n]"

text \<open>
  \<open>memcpy(&dst[doff], &src[soff], n)\<close> on two distinct objects; copying outside either
  of them is a fault.
\<close>

definition memcpy_m :: "byte list \<Rightarrow> nat \<Rightarrow> byte list \<Rightarrow> nat \<Rightarrow> nat \<Rightarrow> fault + byte list" where
  "memcpy_m dst doff src soff n =
     (if doff + n \<le> length dst \<and> soff + n \<le> length src
      then Inr (take doff dst @ take n (drop soff src) @ drop (doff + n) dst)
      else Inl OutOfBounds)"

text \<open>The contents of a buffer after \<open>pl\<close> was stored at its start.\<close>

definition stored :: "byte list \<Rightarrow> byte list \<Rightarrow> byte list" where
  "stored pl b = pl @ drop (length pl) b"

section \<open>The client side of the protocol (crud\_client.c)\<close>

text \<open>
  \<open>crud_send\<close> writes the descriptor and, for CREATE and UPDATE, the first \<open>buf_length\<close>
  bytes of \<open>buf\<close> (\<open>None\<close> is the NULL pointer). The result is the payload that was sent.
  On a socket that is not connected \<open>write\<close> fails and the loop never ends; the same
  holds for a NULL buffer and a positive length.
\<close>

definition crud_send :: "bool \<Rightarrow> CrudRequest \<Rightarrow> byte list option \<Rightarrow> fault + byte list" where
  "crud_send conn request buf =
     (let rq = (ucast (drop_bit 28 request AND 0xf) :: 8 word);
          buf_length = unat (drop_bit 4 request AND 0xffffff)
      in if \<not> conn then Inl Hang
         else if rq = CRUD_CREATE \<or> rq = CRUD_UPDATE then
           (case buf of
              None \<Rightarrow> if buf_length = 0 then Inr [] else Inl Hang
            | Some b \<Rightarrow> if buf_length \<le> length b then Inr (take buf_length b)
                        else Inl OutOfBounds)
         else Inr [])"

text \<open>
  \<open>crud_receive\<close>: \<open>response\<close> is the descriptor read from the stream (in host order)
  and \<open>pl\<close> the bytes that follow it. If the response is a READ, \<open>buf_length\<close> bytes are
  read into \<open>buf\<close>. The result is the bytes stored at the start of \<open>buf\<close>.
\<close>

definition crud_receive :: "byte list option \<Rightarrow> CrudResponse \<Rightarrow> byte list \<Rightarrow> fault + byte list" where
  "crud_receive buf response pl =
     (let response_req = (ucast (drop_bit 28 response AND 0xf) :: 8 word);
          buf_length = unat (drop_bit 4 response AND 0xffffff)
      in if response_req = CRUD_READ then
           (if length pl < buf_length then Inl Hang
            else case buf of
              None \<Rightarrow> if buf_length = 0 then Inr [] else Inl Hang
            | Some b \<Rightarrow> if buf_length \<le> length b then Inr (take buf_length pl)
                        else Inl OutOfBounds)
         else Inr [])"

text \<open>
  \<open>crud_client_operation\<close>: connects on INIT (returning -1 if that fails), sends the
  request, receives the response, and closes the socket on CLOSE. The result is the
  response, the bytes stored in \<open>buf\<close>, and the new state.
\<close>

definition crud_client_operation ::
  "'srv crud_env \<Rightarrow> CrudRequest \<Rightarrow> byte list option \<Rightarrow> 'srv world
     \<Rightarrow> fault + (CrudResponse \<times> byte list \<times> 'srv world)" where
  "crud_client_operation env op buf w =
     (let rq = (ucast (drop_bit 28 op AND 0xf) :: 8 word)
      in if rq = CRUD_INIT \<and> \<not> net_connect env (remote w) then Inr (- 1, [], w)
         else
           let w1 = (if rq = CRUD_INIT then w\<lparr>connected := True\<rparr> else w)
           in case crud_send (connected w1) op buf of
                Inl f \<Rightarrow> Inl f
              | Inr payload \<Rightarrow>
                  (case net_serve env (remote w1) op payload of
                     (response, pl, srv) \<Rightarrow>
                       (case crud_receive buf response pl of
                          Inl f \<Rightarrow> Inl f
                        | Inr got \<Rightarrow>
                            Inr (response, got,
                                 w1\<lparr>remote := srv,
                                    connected := (if rq = CRUD_CLOSE then False else connected w1),
                                    issued := issued w1 @ [(op, response)],
                                    payloads := payloads w1 @ [payload]\<rparr>))))"

section \<open>The file operations (crud\_file\_io.c)\<close>

text \<open>
  Every public function starts with the same block: if \<open>InitFlag\<close> is 0, a CRUD\_INIT
  request is issued; if it fails the function returns -1, otherwise \<open>InitFlag\<close> becomes 1.
  \<open>crud_init\<close> is that block; its result says whether the function goes on.
\<close>

definition crud_init :: "'srv crud_env \<Rightarrow> 'srv world \<Rightarrow> fault + (bool \<times> 'srv world)" where
  "crud_init env w =
     (if InitFlag w = 0 then
        (case crud_client_operation env (convert_to_CrudRequest 0 CRUD_INIT 0 0 0) None w of
           Inl f \<Rightarrow> Inl f
         | Inr (initialized, got, w1) \<Rightarrow>
             if res (parse_CrudResponse initialized) = 1 then Inr (False, w1)
             else Inr (True, w1\<lparr>InitFlag := 1\<rparr>))
      else Inr (True, w))"

text \<open>
  The table is passed to \<open>crud_client_operation\<close> as a buffer by \<open>crud_format\<close>,
  \<open>crud_mount\<close> and \<open>crud_unmount\<close>. \<open>load_table\<close> is the table after the bytes \<open>got\<close> were
  stored at its start (nothing stored: nothing changes).
\<close>

definition load_table ::
  "'srv crud_env \<Rightarrow> CrudFileAllocationType list \<Rightarrow> byte list \<Rightarrow> CrudFileAllocationType list" where
  "load_table env tbl got =
     (if got = [] then tbl
      else map (bytes_entry env (stored got (table_bytes env tbl))) [0..<length tbl])"

definition empty_slot :: CrudFileAllocationType where
  "empty_slot = \<lparr> filename = [], object_id = 0, position = 0, length_f = 0, open_f = 0 \<rparr>"

definition crud_format :: "'srv crud_env \<Rightarrow> 'srv world \<Rightarrow> fault + (16 word \<times> 'srv world)" where
  "crud_format env w =
     (case crud_init env w of
        Inl f \<Rightarrow> Inl f
      | Inr (False, w1) \<Rightarrow> Inr (- 1, w1)
      | Inr (True, w1) \<Rightarrow>
          (case crud_client_operation env
                  (convert_to_CrudRequest 0 CRUD_FORMAT 0 CRUD_NULL_FLAG 0) None w1 of
             Inl f \<Rightarrow> Inl f
           | Inr (formatted, got, w2) \<Rightarrow>
               if res (parse_CrudResponse formatted) = 1 then Inr (- 1, w2)
               else
                 let w3 = w2\<lparr>crud_file_table := map (\<lambda>e. empty_slot) (crud_file_table w2)\<rparr>;
                     image = table_bytes env (crud_file_table w3)
                 in (case crud_client_operation env
                            (convert_to_CrudRequest 0 CRUD_CREATE (of_nat (length image))
                               CRUD_PRIORITY_OBJECT 0)
                            (Some image) w3 of
                       Inl f \<Rightarrow> Inl f
                     | Inr (created, got, w4) \<Rightarrow>
                         (let w5 = w4\<lparr>crud_file_table := load_table env (crud_file_table w4) got\<rparr>
                          in if res (parse_CrudResponse created) = 1 then Inr (- 1, w5)
                             else Inr (0, w5)))))"

definition crud_mount :: "'srv crud_env \<Rightarrow> 'srv world \<Rightarrow> fault + (16 word \<times> 'srv world)" where
  "crud_mount env w =
     (case crud_init env w of
        Inl f \<Rightarrow> Inl f
      | Inr (False, w1) \<Rightarrow> Inr (- 1, w1)
      | Inr (True, w1) \<Rightarrow>
          let image = table_bytes env (crud_file_table w1)
          in (case crud_client_operation env
                     (convert_to_CrudRequest 0 CRUD_READ (of_nat (length image))
                        CRUD_PRIORITY_OBJECT 0)
                     (Some image) w1 of
                Inl f \<Rightarrow> Inl f
              | Inr (readResponse, got, w2) \<Rightarrow>
                  (let w3 = w2\<lparr>crud_file_table := load_table env (crud_file_table w2) got\<rparr>
                   in if res (parse_CrudResponse readResponse) = 1 then Inr (- 1, w3)
                      else Inr (0, w3))))"

definition crud_unmount :: "'srv crud_env \<Rightarrow> 'srv world \<Rightarrow> fault + (16 word \<times> 'srv world)" where
  "crud_unmount env w =
     (if InitFlag w = 0 then Inr (- 1, w)
      else
        let image = table_bytes env (crud_file_table w)
        in (case crud_client_operation env
                   (convert_to_CrudRequest 0 CRUD_UPDATE (of_nat (length image))
                      CRUD_PRIORITY_OBJECT 0)
                   (Some image) w of
              Inl f \<Rightarrow> Inl f
            | Inr (updated, got, w1) \<Rightarrow>
                (let w2 = w1\<lparr>crud_file_table := load_table env (crud_file_table w1) got\<rparr>
                 in if res (parse_CrudResponse updated) = 1 then Inr (- 1, w2)
                    else
                      (case crud_client_operation env
                              (convert_to_CrudRequest 0 CRUD_CLOSE 0 CRUD_NULL_FLAG 0) None w2 of
                         Inl f \<Rightarrow> Inl f
                       | Inr (closed, got2, w3) \<Rightarrow>
                           if res (parse_CrudResponse closed) = 1 then Inr (- 1, w3)
                           else Inr (0, w3)))))"

subsection \<open>crud\_open\<close>

text \<open>
  The first loop of \<open>crud_open\<close>: \<open>fh\<close> advances while it is inside the table and the
  name of slot \<open>fh\<close> differs from \<open>path\<close>.
\<close>

function search_name :: "CrudFileAllocationType list \<Rightarrow> string \<Rightarrow> nat \<Rightarrow> nat" where
  "search_name tbl path fh =
     (if fh < length tbl \<and> filename (tbl ! fh) \<noteq> path then search_name tbl path (fh + 1)
      else fh)"
  by pat_completeness auto
termination
  by (relation "measure (\<lambda>(tbl, path, fh). length tbl - fh)") auto

text \<open>
  The second loop: \<open>while (strcmp(crud_file_table[fh].filename, "") != 0) fh++\<close>. The
  condition reads slot \<open>fh\<close> without comparing \<open>fh\<close> with the size of the table: reading
  the slot after the last one is outside the array.
\<close>

function search_empty :: "CrudFileAllocationType list \<Rightarrow> nat \<Rightarrow> fault + nat" where
  "search_empty tbl fh =
     (if length tbl \<le> fh then Inl OutOfBounds
      else if filename (tbl ! fh) \<noteq> [] then search_empty tbl (fh + 1)
      else Inr fh)"
  by pat_completeness auto
termination
  by (relation "measure (\<lambda>(tbl, fh). length tbl - fh)") auto

text \<open>The two loops are unfolded by hand in the proofs, one step at a time.\<close>

declare search_name.simps [simp del] search_empty.simps [simp del]

definition crud_open :: "'srv crud_env \<Rightarrow> string \<Rightarrow> 'srv world \<Rightarrow> fault + (16 word \<times> 'srv world)" where
  "crud_open env path w =
     (case crud_init env w of
        Inl f \<Rightarrow> Inl f
      | Inr (False, w1) \<Rightarrow> Inr (- 1, w1)
      | Inr (True, w1) \<Rightarrow>
          if length path > CRUD_MAX_PATH_LENGTH env \<or> length path \<le> 0 then Inr (- 1, w1)
          else
            let tbl = crud_file_table w1;
                fh = search_name tbl path 0
            in if fh = CRUD_MAX_TOTAL_FILES w1 then
                 (case search_empty tbl 0 of
                    Inl f \<Rightarrow> Inl f
                  | Inr fh \<Rightarrow>
                      if fh = CRUD_MAX_TOTAL_FILES w1 then Inr (- 1, w1)
                      else Inr (of_nat fh,
                                w1\<lparr>crud_file_table := tbl[fh :=
                                      \<lparr> filename = path, object_id = 0, position = 0,
                                        length_f = 0, open_f = 1 \<rparr>]\<rparr>))
               else if open_f (tbl ! fh) = 1 then Inr (- 1, w1)
               else Inr (of_nat fh,
                         w1\<lparr>crud_file_table := tbl[fh := (tbl ! fh)\<lparr>position := 0, open_f := 1\<rparr>]\<rparr>))"

subsection \<open>crud\_close and crud\_seek\<close>

text \<open>
  A file handle is an \<open>int16_t\<close>; \<open>bad_handle\<close> is the test
  \<open>fd >= CRUD_MAX_TOTAL_FILES || fd < 0\<close>, and \<open>slot\<close> the index of a handle that passed it.
\<close>

definition bad_handle :: "'srv world \<Rightarrow> 16 word \<Rightarrow> bool" where
  "bad_handle w fd \<longleftrightarrow> sint fd \<ge> int (CRUD_MAX_TOTAL_FILES w) \<or> sint fd < 0"

definition slot :: "16 word \<Rightarrow> nat" where
  "slot fd = nat (sint fd)"

definition crud_close :: "'srv crud_env \<Rightarrow> 16 word \<Rightarrow> 'srv world \<Rightarrow> fault + (16 word \<times> 'srv world)" where
  "crud_close env fh w =
     (case crud_init env w of
        Inl f \<Rightarrow> Inl f
      | Inr (False, w1) \<Rightarrow> Inr (- 1, w1)
      | Inr (True, w1) \<Rightarrow>
          if bad_handle w1 fh then Inr (- 1, w1)
          else if open_f (crud_file_table w1 ! slot fh) = 0 then Inr (- 1, w1)
          else Inr (0, w1\<lparr>crud_file_table :=
                            (crud_file_table w1)[slot fh :=
                               (crud_file_table w1 ! slot fh)\<lparr>open_f := 0\<rparr>]\<rparr>))"

text \<open>
  \<open>loc\<close> is a \<open>uint32_t\<close>: the test \<open>loc < 0\<close> of the source is never true and the
  comparison with the length is unsigned.
\<close>

definition crud_seek ::
  "'srv crud_env \<Rightarrow> 16 word \<Rightarrow> 32 word \<Rightarrow> 'srv world \<Rightarrow> fault + (32 word \<times> 'srv world)" where
  "crud_seek env fd loc w =
     (case crud_init env w of
        Inl f \<Rightarrow> Inl f
      | Inr (False, w1) \<Rightarrow> Inr (- 1, w1)
      | Inr (True, w1) \<Rightarrow>
          if bad_handle w1 fd then Inr (- 1, w1)
          else if open_f (crud_file_table w1 ! slot fd) = 0 then Inr (- 1, w1)
          else if loc > length_f (crud_file_table w1 ! slot fd) then Inr (- 1, w1)
          else Inr (0, w1\<lparr>crud_file_table :=
                            (crud_file_table w1)[slot fd :=
                               (crud_file_table w1 ! slot fd)\<lparr>position := loc\<rparr>]\<rparr>))"

subsection \<open>crud\_read\<close>

text \<open>
  \<open>buf\<close> is the caller's buffer (\<open>None\<close>: the NULL pointer), \<open>count\<close> an \<open>int32_t\<close>. The
  comparison \<open>count > length - position\<close> is between an \<open>int32_t\<close> and a \<open>uint32_t\<close>, so
  it is unsigned. The result is the return value, the caller's buffer after the call,
  and the new state.
\<close>

definition crud_read ::
  "'srv crud_env \<Rightarrow> 16 word \<Rightarrow> byte list option \<Rightarrow> 32 word \<Rightarrow> 'srv world
     \<Rightarrow> fault + (32 word \<times> byte list option \<times> 'srv world)" where
  "crud_read env fd buf count w =
     (case crud_init env w of
        Inl f \<Rightarrow> Inl f
      | Inr (False, w1) \<Rightarrow> Inr (- 1, buf, w1)
      | Inr (True, w1) \<Rightarrow>
          if bad_handle w1 fd then Inr (- 1, buf, w1)
          else if sint count < 0 then Inr (- 1, buf, w1)
          else if open_f (crud_file_table w1 ! slot fd) = 0 then Inr (- 1, buf, w1)
          else
            (let e = crud_file_table w1 ! slot fd;
                 readBuf = malloc_m env (unat (length_f e))
             in (case crud_client_operation env
                        (convert_to_CrudRequest (object_id e) CRUD_READ (length_f e) 0 0)
                        (Some readBuf) w1 of
                   Inl f \<Rightarrow> Inl f
                 | Inr (readResponse, got, w2) \<Rightarrow>
                     if res (parse_CrudResponse readResponse) = 1 then Inr (- 1, buf, w2)
                     else
                       (let e = crud_file_table w2 ! slot fd;
                            n = (if count > length_f e - position e
                                 then length_f e - position e else count)
                        in (case buf of
                              None \<Rightarrow> Inl OutOfBounds
                            | Some b \<Rightarrow>
                                (case memcpy_m b 0 (stored got readBuf) (unat (position e)) (unat n) of
                                   Inl f \<Rightarrow> Inl f
                                 | Inr b1 \<Rightarrow>
                                     if count > length_f e - position e then
                                       Inr (length_f e - position e, Some b1,
                                            w2\<lparr>crud_file_table := (crud_file_table w2)[slot fd :=
                                                  e\<lparr>position := length_f e\<rparr>]\<rparr>)
                                     else
                                       Inr (count, Some b1,
                                            w2\<lparr>crud_file_table := (crud_file_table w2)[slot fd :=
                                                  e\<lparr>position := position e + count\<rparr>]\<rparr>)))))))"

subsection \<open>crud\_write\<close>

text \<open>
  The three cases of \<open>crud_write\<close>, in the order of the source, each in a definition
  of its own: the object does not exist yet (identifier 0, \<open>write_new\<close>); the write goes
  past the end of the object (\<open>position + count > length\<close>, in unsigned 32-bit
  arithmetic, \<open>write_past_end\<close>); the object keeps its size (\<open>write_in_place\<close>). The
  caller's buffer is returned because a response of type READ makes \<open>crud_receive\<close>
  store bytes in the buffer that was passed.
\<close>

definition write_new ::
  "'srv crud_env \<Rightarrow> 16 word \<Rightarrow> byte list \<Rightarrow> 32 word \<Rightarrow> 'srv world
     \<Rightarrow> fault + (32 word \<times> byte list option \<times> 'srv world)" where
  "write_new env fd b count w1 =
     (case crud_client_operation env
             (convert_to_CrudRequest 0 CRUD_CREATE count 0 0) (Some b) w1 of
        Inl f \<Rightarrow> Inl f
      | Inr (created, got, w2) \<Rightarrow>
          if res (parse_CrudResponse created) = 1 then Inr (- 1, Some (stored got b), w2)
          else
            Inr (count, Some (stored got b),
                 w2\<lparr>crud_file_table := (crud_file_table w2)[slot fd :=
                       (crud_file_table w2 ! slot fd)
                         \<lparr>object_id := oID (parse_CrudResponse created),
                          length_f := count, position := count\<rparr>]\<rparr>))"

definition write_past_end ::
  "'srv crud_env \<Rightarrow> 16 word \<Rightarrow> byte list \<Rightarrow> 32 word \<Rightarrow> byte list \<Rightarrow> 'srv world
     \<Rightarrow> fault + (32 word \<times> byte list option \<times> 'srv world)" where
  "write_past_end env fd b count readBuf w2 =
     (let e = crud_file_table w2 ! slot fd;
          newBuf = malloc_m env (unat (position e + count))
      in (case memcpy_m newBuf 0 readBuf 0 (unat (length_f e)) of
            Inl f \<Rightarrow> Inl f
          | Inr newBuf \<Rightarrow>
              (case memcpy_m newBuf (unat (position e)) b 0 (unat count) of
                 Inl f \<Rightarrow> Inl f
               | Inr newBuf \<Rightarrow>
                   (case crud_client_operation env
                           (convert_to_CrudRequest 0 CRUD_CREATE (position e + count) 0 0)
                           (Some newBuf) w2 of
                      Inl f \<Rightarrow> Inl f
                    | Inr (created, got, w3) \<Rightarrow>
                        if res (parse_CrudResponse created) = 1 then Inr (- 1, Some b, w3)
                        else
                          (case crud_client_operation env
                                  (convert_to_CrudRequest
                                     (object_id (crud_file_table w3 ! slot fd)) CRUD_DELETE 0 0 0)
                                  None w3 of
                             Inl f \<Rightarrow> Inl f
                           | Inr (deleted, got, w4) \<Rightarrow>
                               if res (parse_CrudResponse deleted) = 1 then Inr (- 1, Some b, w4)
                               else
                                 (let e = crud_file_table w4 ! slot fd
                                  in Inr (count, Some b,
                                       w4\<lparr>crud_file_table := (crud_file_table w4)[slot fd :=
                                             e\<lparr>object_id := oID (parse_CrudResponse created),
                                               length_f := position e + count,
                                               position := position e + count\<rparr>]\<rparr>)))))))"

definition write_in_place ::
  "'srv crud_env \<Rightarrow> 16 word \<Rightarrow> byte list \<Rightarrow> 32 word \<Rightarrow> byte list \<Rightarrow> 'srv world
     \<Rightarrow> fault + (32 word \<times> byte list option \<times> 'srv world)" where
  "write_in_place env fd b count readBuf w2 =
     (let e = crud_file_table w2 ! slot fd
      in (case memcpy_m readBuf (unat (position e)) b 0 (unat count) of
            Inl f \<Rightarrow> Inl f
          | Inr readBuf \<Rightarrow>
              (case crud_client_operation env
                      (convert_to_CrudRequest (object_id e) CRUD_UPDATE (length_f e) 0 0)
                      (Some readBuf) w2 of
                 Inl f \<Rightarrow> Inl f
               | Inr (updated, got, w3) \<Rightarrow>
                   if res (parse_CrudResponse updated) = 1 then Inr (- 1, Some b, w3)
                   else
                     (let e = crud_file_table w3 ! slot fd
                      in Inr (count, Some b,
                           w3\<lparr>crud_file_table := (crud_file_table w3)[slot fd :=
                                 e\<lparr>position := position e + count\<rparr>]\<rparr>)))))"

definition crud_write ::
  "'srv crud_env \<Rightarrow> 16 word \<Rightarrow> byte list option \<Rightarrow> 32 word \<Rightarrow> 'srv world
     \<Rightarrow> fault + (32 word \<times> byte list option \<times> 'srv world)" where
  "crud_write env fd buf count w =
     (case crud_init env w of
        Inl f \<Rightarrow> Inl f
      | Inr (False, w1) \<Rightarrow> Inr (- 1, buf, w1)
      | Inr (True, w1) \<Rightarrow>
          (case buf of
             None \<Rightarrow> Inr (- 1, buf, w1)
           | Some b \<Rightarrow>
               if sint count < 0 then Inr (- 1, buf, w1)
               else if bad_handle w1 fd then Inr (- 1, buf, w1)
               else if open_f (crud_file_table w1 ! slot fd) = 0 then Inr (- 1, buf, w1)
               else if object_id (crud_file_table w1 ! slot fd) = 0 then
                 write_new env fd b count w1
               else
                 (let e = crud_file_table w1 ! slot fd;
                      readBuf = malloc_m env (unat (length_f e))
                  in (case crud_client_operation env
                             (convert_to_CrudRequest (object_id e) CRUD_READ (length_f e) 0 0)
                             (Some readBuf) w1 of
                        Inl f \<Rightarrow> Inl f
                      | Inr (readResponse, got, w2) \<Rightarrow>
                          if res (parse_CrudResponse readResponse) = 1 then Inr (- 1, buf, w2)
                          else if position (crud_file_table w2 ! slot fd) + count
                                    > length_f (crud_file_table w2 ! slot fd)
                          then write_past_end env fd b count (stored got readBuf) w2
                          else write_in_place env fd b count (stored got readBuf) w2))))"

text \<open>
  The contents of \<open>readBuf\<close> after the READ of the backing object, in \<open>crud_read\<close> and
  in \<open>crud_write\<close> on an existing object (both allocate the buffer and issue the READ
  in the same way): the allocated buffer with the bytes received from the store at its
  start.
\<close>

definition fetched :: "'srv crud_env \<Rightarrow> 16 word \<Rightarrow> 'srv world \<Rightarrow> byte list" where
  "fetched env fd w =
     (case crud_init env w of
        Inl f \<Rightarrow> []
      | Inr (go, w1) \<Rightarrow>
          (let e = crud_file_table w1 ! slot fd;
               readBuf = malloc_m env (unat (length_f e))
           in (case crud_client_operation env
                      (convert_to_CrudRequest (object_id e) CRUD_READ (length_f e) 0 0)
                      (Some readBuf) w1 of
                 Inl f \<Rightarrow> []
               | Inr (readResponse, got, w2) \<Rightarrow> stored got readBuf)))"

section \<open>Sequences of calls\<close>

text \<open>
  The public operations as values, and \<open>run\<close>, which performs one of them and says
  whether it succeeded (returned something other than -1).
\<close>

datatype call =
    Format
  | Mount
  | Unmount
  | Open string
  | Close "16 word"
  | Read "16 word" "byte list option" "32 word"
  | Write "16 word" "byte list option" "32 word"
  | Seek "16 word" "32 word"

fun run :: "'srv crud_env \<Rightarrow> call \<Rightarrow> 'srv world \<Rightarrow> fault + (bool \<times> 'srv world)" where
  "run env Format w = map_sum id (\<lambda>(r, w'). (r \<noteq> - 1, w')) (crud_format env w)"
| "run env Mount w = map_sum id (\<lambda>(r, w'). (r \<noteq> - 1, w')) (crud_mount env w)"
| "run env Unmount w = map_sum id (\<lambda>(r, w'). (r \<noteq> - 1, w')) (crud_unmount env w)"
| "run env (Open path) w = map_sum id (\<lambda>(r, w'). (r \<noteq> - 1, w')) (crud_open env path w)"
| "run env (Close fh) w = map_sum id (\<lambda>(r, w'). (r \<noteq> - 1, w')) (crud_close env fh w)"
| "run env (Read fd buf count) w =
     map_sum id (\<lambda>(r, b, w'). (r \<noteq> - 1, w')) (crud_read env fd buf count w)"
| "run env (Write fd buf count) w =
     map_sum id (\<lambda>(r, b, w'). (r \<noteq> - 1, w')) (crud_write env fd buf count w)"
| "run env (Seek fd loc) w = map_sum id (\<lambda>(r, w'). (r \<noteq> - 1, w')) (crud_seek env fd loc w)"

text \<open>The operations that pass the table itself to the store.\<close>

fun volume_call :: "call \<Rightarrow> bool" where
  "volume_call Format = True"
| "volume_call Mount = True"
| "volume_call Unmount = True"
| "volume_call c = False"

text \<open>The relation between position and length of every slot.\<close>

definition table_inv :: "CrudFileAllocationType list \<Rightarrow> bool" where
  "table_inv tbl \<longleftrightarrow> list_all (\<lambda>e. position e \<le> length_f e) tbl"

text \<open>
  The responses received between two states, and whether one of them reports failure
  (result bit 1).
\<close>

definition issued_since :: "'srv world \<Rightarrow> 'srv world \<Rightarrow> (CrudRequest \<times> CrudResponse) list" where
  "issued_since w w' = drop (length (issued w)) (issued w')"

definition reports_failure :: "CrudRequest \<times> CrudResponse \<Rightarrow> bool" where
  "reports_failure x \<longleftrightarrow> res (parse_CrudResponse (snd x)) = 1"

text \<open>
  A response of type READ is the only one after which \<open>crud_receive\<close> stores bytes in
  the buffer it was given.
\<close>

definition carries_payload :: "CrudRequest \<times> CrudResponse \<Rightarrow> bool" where
  "carries_payload x \<longleftrightarrow> req (parse_CrudResponse (snd x)) = CRUD_READ"

section \<open>A small object store, to run the operations on concrete inputs\<close>

text \<open>
  The store is not part of the sources. It keeps objects under identifiers it assigns
  from \<open>next_oid\<close>, keeps the object created with the priority flag under identifier 0,
  and answers with failure every request whose type is in \<open>refused\<close>, and every READ,
  UPDATE or DELETE of an identifier it does not hold.
\<close>

record store =
  next_oid :: "32 word"
  objects :: "(32 word \<times> byte list) list"
  refused :: "8 word list"

definition store_serve :: "store \<Rightarrow> CrudRequest \<Rightarrow> byte list \<Rightarrow> CrudResponse \<times> byte list \<times> store" where
  "store_serve st op payload =
     (let p = parse_CrudResponse op;
          failure = (convert_to_CrudRequest (oID p) (req p) 0 (flags p) 1, [], st)
      in if req p \<in> set (refused st) then failure
         else if req p = CRUD_CREATE then
           (if flags p = CRUD_PRIORITY_OBJECT then
              (convert_to_CrudRequest 0 (req p) (length_p p) (flags p) 0, [],
               st\<lparr>objects := (0, payload) # objects st\<rparr>)
            else
              (convert_to_CrudRequest (next_oid st) (req p) (length_p p) (flags p) 0, [],
               st\<lparr>next_oid := next_oid st + 1, objects := (next_oid st, payload) # objects st\<rparr>))
         else if req p = CRUD_READ then
           (case map_of (objects st) (oID p) of
              None \<Rightarrow> failure
            | Some bs \<Rightarrow>
                (convert_to_CrudRequest (oID p) (req p) (of_nat (length bs)) (flags p) 0, bs, st))
         else if req p = CRUD_UPDATE then
           (case map_of (objects st) (oID p) of
              None \<Rightarrow> failure
            | Some bs \<Rightarrow>
                (convert_to_CrudRequest (oID p) (req p) (length_p p) (flags p) 0, [],
                 st\<lparr>objects := (oID p, payload) # objects st\<rparr>))
         else if req p = CRUD_DELETE then
           (case map_of (objects st) (oID p) of
              None \<Rightarrow> failure
            | Some bs \<Rightarrow>
                (convert_to_CrudRequest (oID p) (req p) 0 (flags p) 0, [],
                 st\<lparr>objects := filter (\<lambda>x. fst x \<noteq> oID p) (objects st)\<rparr>))
         else if req p = CRUD_FORMAT then
           (convert_to_CrudRequest 0 (req p) 0 (flags p) 0, [], st\<lparr>objects := []\<rparr>)
         else (convert_to_CrudRequest 0 (req p) 0 (flags p) 0, [], st))"

text \<open>
  The environment of the concrete runs: connecting always succeeds, fresh memory holds
  zeros, paths have at most 8 characters. The byte image of the table is one byte for
  each slot, its open flag, and an image is read back as empty slots with that flag.
\<close>

definition store_env :: "store crud_env" where
  "store_env =
     \<lparr> net_connect = (\<lambda>st. True),
       net_serve = store_serve,
       heap_junk = (\<lambda>i. 0),
       table_bytes = map open_f,
       bytes_entry = (\<lambda>image i. empty_slot\<lparr>open_f := image ! i\<rparr>),
       CRUD_MAX_PATH_LENGTH = 8 \<rparr>"

text \<open>States for the concrete runs.\<close>

definition one_file :: "32 word \<Rightarrow> 32 word \<Rightarrow> byte list \<Rightarrow> 8 word list \<Rightarrow> store world" where
  "one_file pos len bytes refuse =
     \<lparr> InitFlag = 1,
       crud_file_table =
         [\<lparr> filename = ''a'', object_id = 1, position = pos, length_f = len, open_f = 1 \<rparr>,
          empty_slot],
       connected = True,
       remote = \<lparr> next_oid = 2, objects = [(1, bytes)], refused = refuse \<rparr>,
       issued = [],
       payloads = [] \<rparr>"

text \<open>
  A client that has just started (nothing initialised, an empty table) in front of a
  store that still holds the directory object of an earlier session.
\<close>

definition restarted_client :: "store world" where
  "restarted_client =
     \<lparr> InitFlag = 0,
       crud_file_table = [empty_slot, empty_slot],
       connected = False,
       remote = \<lparr> next_oid = 5, objects = [(0, [0, 0])], refused = [] \<rparr>,
       issued = [],
       payloads = [] \<rparr>"

text \<open>
  An environment whose table image keeps the position and the length of every slot:
  three bytes for each slot, the low byte of the position, the low byte of the length
  and the open flag. \<open>stale_directory\<close> is a client that has just started in front of a
  store whose directory object holds, for the first slot, position 5 and length 3.
\<close>

definition layout_env :: "store crud_env" where
  "layout_env =
     store_env
       \<lparr> table_bytes :=
           (\<lambda>tbl. concat (map (\<lambda>e. [ucast (position e), ucast (length_f e), open_f e]) tbl)),
         bytes_entry :=
           (\<lambda>image i. empty_slot\<lparr>position := ucast (image ! (3 * i)),
                                  length_f := ucast (image ! (3 * i + 1)),
                                  open_f := image ! (3 * i + 2)\<rparr>) \<rparr>"

definition stale_directory :: "store world" where
  "stale_directory =
     restarted_client
       \<lparr>remote := \<lparr> next_oid = 5, objects = [(0, [5, 3, 0, 0, 0, 0])], refused = [] \<rparr>\<rparr>"

definition full_world :: "store world" where
  "full_world =
     \<lparr> InitFlag = 1,
       crud_file_table =
         [\<lparr> filename = ''a'', object_id = 0, position = 0, length_f = 0, open_f = 0 \<rparr>,
          \<lparr> filename = ''b'', object_id = 0, position = 0, length_f = 0, open_f = 0 \<rparr>],
       connected = True,
       remote = \<lparr> next_oid = 1, objects = [], refused = [] \<rparr>,
       issued = [],
       payloads = [] \<rparr>"

section \<open>Properties of the descriptor codec\<close>

lemma bitWork_mask: "drop_bit 8 (NOT (0 :: 32 word)) = mask 24"
  by (simp add: mask_eq_exp_minus_1)

lemma fifteen_mask: "(15 :: 'a::len word) = mask 4"
  by (simp add: mask_eq_exp_minus_1)

lemma seven_mask: "(7 :: 'a::len word) = mask 3"
  by (simp add: mask_eq_exp_minus_1)

lemma one_mask: "(1 :: 'a::len word) = mask 1"
  by (simp add: mask_eq_exp_minus_1)

lemma ffffff_mask: "(0xFFFFFF :: 'a::len word) = mask 24"
  by (simp add: mask_eq_exp_minus_1)

lemma bit_times_two:
  "bit ((a :: 'a::len word) * 2) n \<longleftrightarrow> n \<noteq> 0 \<and> n < LENGTH('a) \<and> bit a (n - 1)"
  using bit_double_iff [of a n] by (auto simp add: mult.commute bit_simps)

lemma mask_twice: "(x AND mask n) AND mask n = (x :: 'a::len word) AND mask n"
  by (simp add: and.assoc)

text \<open>Decoding an encoded descriptor gives the five fields, each cut to its width.\<close>

lemma parse_convert:
  "parse_CrudResponse (convert_to_CrudRequest oid rq len fl rs) =
     \<lparr> oID = oid, req = rq AND 15, length_p = len AND 0xFFFFFF,
       flags = fl AND 7, res = rs AND 1 \<rparr>"
proof -
  let ?w = "convert_to_CrudRequest oid rq len fl rs"
  have a: "ucast (drop_bit 32 ?w) = oid"
    unfolding convert_to_CrudRequest_def Let_def bitWork_mask fifteen_mask seven_mask one_mask
    by (rule bit_word_eqI) (auto simp add: bit_simps bit_times_two)
  have b: "ucast (drop_bit 28 ?w AND 15) = rq AND 15"
    unfolding convert_to_CrudRequest_def Let_def bitWork_mask fifteen_mask seven_mask one_mask
    by (rule bit_word_eqI) (auto simp add: bit_simps bit_times_two)
  have c: "ucast (drop_bit 4 ?w AND ucast (drop_bit 8 (NOT (0 :: 32 word)))) = len AND 0xFFFFFF"
    unfolding convert_to_CrudRequest_def Let_def bitWork_mask fifteen_mask seven_mask one_mask
      ffffff_mask
    by (rule bit_word_eqI) (auto simp add: bit_simps bit_times_two)
  have d: "ucast (drop_bit 1 ?w AND 7) = fl AND 7"
    unfolding convert_to_CrudRequest_def Let_def bitWork_mask fifteen_mask seven_mask one_mask
    by (rule bit_word_eqI)
      (auto simp add: bit_simps bit_times_two bit_Suc [symmetric] simp del: drop_bit_of_Suc_0)
  have e: "ucast (?w AND 1) = rs AND 1"
    unfolding convert_to_CrudRequest_def Let_def bitWork_mask fifteen_mask seven_mask one_mask
    by (rule bit_word_eqI) (auto simp add: bit_simps bit_times_two)
  show ?thesis
    unfolding parse_CrudResponse_def Let_def by (simp only: a b c d e)
qed

text \<open>The encoder sees only the masked fields.\<close>

lemma convert_masks_inputs:
  "convert_to_CrudRequest oid rq len fl rs =
   convert_to_CrudRequest oid (rq AND 15) (len AND 0xFFFFFF) (fl AND 7) (rs AND 1)"
  unfolding convert_to_CrudRequest_def Let_def bitWork_mask ffffff_mask fifteen_mask
    seven_mask one_mask
  by (simp only: mask_twice)

text \<open>
  Claim C4. For field values within their declared ranges (the object identifier is a
  32-bit value by its type, the request type is below 16, the length below \<open>2^24\<close>, the
  flags below 8, the result below 2), decoding the encoded descriptor gives back the
  five inputs exactly.
\<close>

theorem C4_roundtrip:
  assumes "rq < 16" and "len < 2 ^ 24" and "fl < 8" and "rs < 2"
  shows "parse_CrudResponse (convert_to_CrudRequest oid rq len fl rs) =
           \<lparr> oID = oid, req = rq, length_p = len, flags = fl, res = rs \<rparr>"
proof -
  have "rq AND 15 = rq"
    unfolding fifteen_mask using assms(1) by (intro less_mask_eq) simp
  moreover have "len AND 0xFFFFFF = len"
    unfolding ffffff_mask using assms(2) by (intro less_mask_eq) simp
  moreover have "fl AND 7 = fl"
    unfolding seven_mask using assms(3) by (intro less_mask_eq) simp
  moreover have "rs AND 1 = rs"
    unfolding one_mask using assms(4) by (intro less_mask_eq) simp
  ultimately show ?thesis
    by (simp only: parse_convert)
qed

theorem C4_roundtrip_witness:
  "(3 :: 8 word) < 16 \<and> (10 :: 32 word) < 2 ^ 24 \<and> (1 :: 8 word) < 8 \<and> (1 :: 8 word) < 2 \<and>
   parse_CrudResponse (convert_to_CrudRequest 77 3 10 1 1) =
     \<lparr> oID = 77, req = 3, length_p = 10, flags = 1, res = 1 \<rparr>"
  using C4_roundtrip [of 3 10 1 1 77] by simp

text \<open>
  Claim C9. For all inputs, in range or not, \<open>convert_to_CrudRequest\<close> returns a
  descriptor (it has no error result) in which every field is cut to its width: the
  descriptor decodes to the request type masked to 4 bits, the length to 24 bits, the
  flags to 3 bits and the result to 1 bit, and it is the descriptor of the masked
  inputs. A length of \<open>2^24\<close> encodes as 0 and a result of 2 encodes as 0; the inputs of the
  specification's example (request type 0x1F, length \<open>2^24\<close>, flags 0xF, result 2) encode
  as request type 0xF, length 0, flags 7, result 0.
\<close>

theorem C9_masking:
  "parse_CrudResponse (convert_to_CrudRequest oid rq len fl rs) =
     \<lparr> oID = oid, req = rq AND 15, length_p = len AND 0xFFFFFF,
       flags = fl AND 7, res = rs AND 1 \<rparr>
   \<and> convert_to_CrudRequest oid rq len fl rs =
       convert_to_CrudRequest oid (rq AND 15) (len AND 0xFFFFFF) (fl AND 7) (rs AND 1)
   \<and> convert_to_CrudRequest oid rq (2 ^ 24) fl rs = convert_to_CrudRequest oid rq 0 fl rs
   \<and> convert_to_CrudRequest oid rq len fl 2 = convert_to_CrudRequest oid rq len fl 0
   \<and> convert_to_CrudRequest oid 0x1F (2 ^ 24) 0xF 2 = convert_to_CrudRequest oid 0xF 0 7 0"
proof -
  have z: "(2 ^ 24 :: 32 word) AND 0xFFFFFF = 0" "(0 :: 32 word) AND 0xFFFFFF = 0"
    "(2 :: 8 word) AND 1 = 0" "(0 :: 8 word) AND 1 = 0"
    "(0x1F :: 8 word) AND 15 = 0xF" "(0xF :: 8 word) AND 7 = 7"
    by simp_all
  have a: "convert_to_CrudRequest oid rq (2 ^ 24) fl rs = convert_to_CrudRequest oid rq 0 fl rs"
    using convert_masks_inputs [of oid rq "2 ^ 24" fl rs] convert_masks_inputs [of oid rq 0 fl rs]
    by (simp only: z)
  have b: "convert_to_CrudRequest oid rq len fl 2 = convert_to_CrudRequest oid rq len fl 0"
    using convert_masks_inputs [of oid rq len fl 2] convert_masks_inputs [of oid rq len fl 0]
    by (simp only: z)
  have c: "convert_to_CrudRequest oid 0x1F (2 ^ 24) 0xF 2 = convert_to_CrudRequest oid 0xF 0 7 0"
    using convert_masks_inputs [of oid "0x1F" "2 ^ 24" "0xF" 2] by (simp only: z)
  show ?thesis
    using parse_convert [of oid rq len fl rs] convert_masks_inputs [of oid rq len fl rs] a b c
    by blast
qed

section \<open>What an exchange with the store changes\<close>

lemma req_parse: "req (parse_CrudResponse x) = ucast (drop_bit 28 x AND 0xf)"
  by (simp add: parse_CrudResponse_def)

lemma req_convert: "req (parse_CrudResponse (convert_to_CrudRequest oid rq len fl rs)) = rq AND 15"
  by (simp add: parse_convert)

lemma request_type_of_convert:
  "req (parse_CrudResponse (convert_to_CrudRequest oid CRUD_INIT len fl rs)) = CRUD_INIT"
  "req (parse_CrudResponse (convert_to_CrudRequest oid CRUD_FORMAT len fl rs)) = CRUD_FORMAT"
  "req (parse_CrudResponse (convert_to_CrudRequest oid CRUD_CREATE len fl rs)) = CRUD_CREATE"
  "req (parse_CrudResponse (convert_to_CrudRequest oid CRUD_READ len fl rs)) = CRUD_READ"
  "req (parse_CrudResponse (convert_to_CrudRequest oid CRUD_UPDATE len fl rs)) = CRUD_UPDATE"
  "req (parse_CrudResponse (convert_to_CrudRequest oid CRUD_DELETE len fl rs)) = CRUD_DELETE"
  "req (parse_CrudResponse (convert_to_CrudRequest oid CRUD_CLOSE len fl rs)) = CRUD_CLOSE"
  by (simp_all add: req_convert CRUD_INIT_def CRUD_FORMAT_def CRUD_CREATE_def CRUD_READ_def
      CRUD_UPDATE_def CRUD_DELETE_def CRUD_CLOSE_def)

lemma request_types_distinct:
  "CRUD_INIT \<noteq> CRUD_FORMAT" "CRUD_INIT \<noteq> CRUD_CREATE" "CRUD_FORMAT \<noteq> CRUD_CREATE"
  "CRUD_INIT \<noteq> CRUD_UPDATE" "CRUD_CREATE \<noteq> CRUD_READ"
  by (simp_all add: CRUD_INIT_def CRUD_FORMAT_def CRUD_CREATE_def CRUD_READ_def CRUD_UPDATE_def)

lemma client_operation_effect:
  assumes "crud_client_operation env op buf w = Inr (resp, got, w')"
  shows "crud_file_table w' = crud_file_table w"
    and "InitFlag w' = InitFlag w"
    and "issued w' = issued w @ [(op, resp)] \<or>
         (issued w' = issued w \<and> resp = - 1 \<and> req (parse_CrudResponse op) = CRUD_INIT)"
  using assms
  by (auto simp add: crud_client_operation_def Let_def req_parse
      split: if_splits sum.splits prod.splits)

lemma client_operation_logged:
  assumes "crud_client_operation env op buf w = Inr (resp, got, w')"
    and "req (parse_CrudResponse op) \<noteq> CRUD_INIT"
  shows "issued w' = issued w @ [(op, resp)]"
  using client_operation_effect(3) [OF assms(1)] assms(2) by auto

lemma crud_init_effect:
  assumes "crud_init env w = Inr (go, w1)"
  shows "crud_file_table w1 = crud_file_table w"
    and "go \<Longrightarrow> InitFlag w1 \<noteq> 0"
    and "\<not> go \<Longrightarrow> InitFlag w1 = 0"
    and "\<exists>new. issued w1 = issued w @ new \<and> (go \<longrightarrow> \<not> list_ex reports_failure new) \<and> (InitFlag w \<noteq> 0 \<longrightarrow> new = [])"
    and "\<exists>new. issued w1 = issued w @ new \<and>
           (\<forall>x \<in> set new. fst x = convert_to_CrudRequest 0 CRUD_INIT 0 0 0)"
proof -
  show "crud_file_table w1 = crud_file_table w"
    using assms
    by (auto simp add: crud_init_def split: if_splits sum.splits prod.splits
        dest: client_operation_effect(1))
  show "go \<Longrightarrow> InitFlag w1 \<noteq> 0"
    using assms
    by (auto simp add: crud_init_def split: if_splits sum.splits prod.splits)
  show "\<not> go \<Longrightarrow> InitFlag w1 = 0"
    using assms
    by (auto simp add: crud_init_def split: if_splits sum.splits prod.splits
        dest: client_operation_effect(2))
  show "\<exists>new. issued w1 = issued w @ new \<and> (go \<longrightarrow> \<not> list_ex reports_failure new) \<and> (InitFlag w \<noteq> 0 \<longrightarrow> new = [])"
    using assms
    by (auto simp add: crud_init_def reports_failure_def split: if_splits sum.splits prod.splits
        dest!: client_operation_effect(3))
  show "\<exists>new. issued w1 = issued w @ new \<and>
           (\<forall>x \<in> set new. fst x = convert_to_CrudRequest 0 CRUD_INIT 0 0 0)"
    using assms
    by (auto simp add: crud_init_def split: if_splits sum.splits prod.splits
        dest!: client_operation_effect(3))
qed

text \<open>A chain of steps returns only if every step returns.\<close>

lemma sum_case_Inr_iff:
  "(case m of Inl f \<Rightarrow> Inl f | Inr x \<Rightarrow> g x) = Inr y \<longleftrightarrow> (\<exists>x. m = Inr x \<and> g x = Inr y)"
  by (cases m) auto

lemma request_types_not_init:
  "CRUD_FORMAT AND 15 \<noteq> CRUD_INIT" "CRUD_CREATE AND 15 \<noteq> CRUD_INIT"
  "CRUD_READ AND 15 \<noteq> CRUD_INIT" "CRUD_UPDATE AND 15 \<noteq> CRUD_INIT"
  "CRUD_DELETE AND 15 \<noteq> CRUD_INIT" "CRUD_CLOSE AND 15 \<noteq> CRUD_INIT"
  by (simp_all add: CRUD_INIT_def CRUD_FORMAT_def CRUD_CREATE_def CRUD_READ_def
      CRUD_UPDATE_def CRUD_DELETE_def CRUD_CLOSE_def)

lemma exchange:
  assumes "crud_client_operation env (convert_to_CrudRequest oid rq len fl rs) buf w
             = Inr (resp, got, w')"
    and "rq AND 15 \<noteq> CRUD_INIT"
  shows "issued w' = issued w @ [(convert_to_CrudRequest oid rq len fl rs, resp)]"
    and "crud_file_table w' = crud_file_table w"
    and "InitFlag w' = InitFlag w"
  using client_operation_logged [OF assms(1)] client_operation_effect(1,2) [OF assms(1)] assms(2)
  by (simp_all add: req_convert)

lemma client_operation_payload:
  assumes "crud_client_operation env op buf w = Inr (resp, got, w')"
    and "req (parse_CrudResponse op) \<noteq> CRUD_INIT"
  shows "\<exists>p. crud_send True op buf = Inr p \<and> payloads w' = payloads w @ [p]"
  using assms
  by (auto simp add: crud_client_operation_def Let_def req_parse crud_send_def
      split: if_splits sum.splits prod.splits option.splits)

lemma client_operation_got_length:
  assumes "crud_client_operation env op (Some b) w = Inr (resp, got, w')"
  shows "length got \<le> length b"
  using assms
  by (auto simp add: crud_client_operation_def crud_receive_def Let_def
      split: if_splits sum.splits prod.splits)

lemma sent_length:
  "unat (drop_bit 4 (convert_to_CrudRequest oid rq len fl rs) AND 0xffffff) = unat (len AND 0xFFFFFF)"
proof -
  let ?x = "drop_bit 4 (convert_to_CrudRequest oid rq len fl rs) AND (0xffffff :: 64 word)"
  have "length_p (parse_CrudResponse (convert_to_CrudRequest oid rq len fl rs)) = len AND 0xFFFFFF"
    by (simp add: parse_convert)
  then have e: "(ucast (drop_bit 4 (convert_to_CrudRequest oid rq len fl rs)
                  AND ucast (drop_bit 8 (NOT (0 :: 32 word)))) :: 32 word) = len AND 0xFFFFFF"
    by (simp add: parse_CrudResponse_def Let_def)
  have "(drop_bit 8 (NOT (0 :: 32 word))) = 0xFFFFFF"
    by (simp add: bitWork_mask mask_numeral)
  then have m: "(ucast (drop_bit 8 (NOT (0 :: 32 word))) :: 64 word) = 0xffffff"
    by simp
  have "?x \<le> 0xffffff" by (rule word_and_le1)
  then have "unat ?x \<le> 16777215" by (simp add: word_le_nat_alt)
  then have "unat ?x < 2 ^ 32" by simp
  then have "unat (ucast ?x :: 32 word) = unat ?x"
    by (simp add: unsigned_ucast_eq take_bit_nat_eq_self)
  with e m show ?thesis by simp
qed

lemma send_update:
  assumes "crud_send True (convert_to_CrudRequest oid CRUD_UPDATE len fl rs) (Some rb) = Inr p"
  shows "p = take (unat (len AND 0xFFFFFF)) rb"
  using assms request_type_of_convert(5) [of oid len fl rs]
  by (auto simp add: crud_send_def Let_def sent_length req_parse split: if_splits)

lemma stored_length: "length got \<le> length b \<Longrightarrow> length (stored got b) = length b"
  by (simp add: stored_def)

lemma malloc_length: "length (malloc_m env n) = n"
  by (simp add: malloc_m_def)

section \<open>Properties of crud\_write\<close>

lemma write_new_effect:
  assumes "write_new env fd b count w1 = Inr (r, b', w')"
  shows "\<exists>a. issued w' = issued w1 @ [(convert_to_CrudRequest 0 CRUD_CREATE count 0 0, a)] \<and>
           InitFlag w' = InitFlag w1 \<and>
           (if res (parse_CrudResponse a) = 1 then r = - 1 \<and> crud_file_table w' = crud_file_table w1
            else r = count \<and> crud_file_table w' = (crud_file_table w1)[slot fd :=
                   (crud_file_table w1 ! slot fd)
                     \<lparr>object_id := oID (parse_CrudResponse a), length_f := count, position := count\<rparr>])"
proof -
  let ?q = "convert_to_CrudRequest 0 CRUD_CREATE count 0 0"
  from assms obtain x where x: "crud_client_operation env ?q (Some b) w1 = Inr x"
    unfolding write_new_def sum_case_Inr_iff by blast
  obtain a g2 w2 where xs: "x = (a, g2, w2)"
    by (cases x)
  note c = x [unfolded xs]
  note e = exchange [OF c request_types_not_init(2)]
  show ?thesis
  proof (cases "res (parse_CrudResponse a) = 1")
    case True
    with assms c have "r = - 1" "w' = w2"
      by (auto simp add: write_new_def)
    with e True show ?thesis by auto
  next
    case False
    with assms c have "r = count"
      "w' = w2\<lparr>crud_file_table := (crud_file_table w2)[slot fd :=
                       (crud_file_table w2 ! slot fd)
                         \<lparr>object_id := oID (parse_CrudResponse a),
                          length_f := count, position := count\<rparr>]\<rparr>"
      by (auto simp add: write_new_def)
    with e False show ?thesis by auto
  qed
qed

lemma write_in_place_effect:
  assumes "write_in_place env fd b count readBuf w2 = Inr (r, b', w')"
  shows "\<exists>a. issued w' = issued w2 @
              [(convert_to_CrudRequest (object_id (crud_file_table w2 ! slot fd)) CRUD_UPDATE
                  (length_f (crud_file_table w2 ! slot fd)) 0 0, a)] \<and>
           InitFlag w' = InitFlag w2 \<and>
           (if res (parse_CrudResponse a) = 1 then r = - 1 \<and> crud_file_table w' = crud_file_table w2
            else r = count \<and> crud_file_table w' = (crud_file_table w2)[slot fd :=
                   (crud_file_table w2 ! slot fd)
                     \<lparr>position := position (crud_file_table w2 ! slot fd) + count\<rparr>])"
proof -
  let ?e = "crud_file_table w2 ! slot fd"
  let ?q = "convert_to_CrudRequest (object_id ?e) CRUD_UPDATE (length_f ?e) 0 0"
  from assms obtain rb x where
    m: "memcpy_m readBuf (unat (position ?e)) b 0 (unat count) = Inr rb"
    and x: "crud_client_operation env ?q (Some rb) w2 = Inr x"
    unfolding write_in_place_def Let_def sum_case_Inr_iff by blast
  obtain a g3 w3 where xs: "x = (a, g3, w3)"
    by (cases x)
  note c = x [unfolded xs]
  note e = exchange [OF c request_types_not_init(4)]
  show ?thesis
  proof (cases "res (parse_CrudResponse a) = 1")
    case True
    with assms m c have "r = - 1" "w' = w3"
      by (auto simp add: write_in_place_def Let_def)
    with e True show ?thesis by auto
  next
    case False
    with assms m c have "r = count"
      "w' = w3\<lparr>crud_file_table := (crud_file_table w3)[slot fd :=
                       (crud_file_table w3 ! slot fd)
                         \<lparr>position := position (crud_file_table w3 ! slot fd) + count\<rparr>]\<rparr>"
      by (auto simp add: write_in_place_def Let_def)
    with e False show ?thesis by auto
  qed
qed

text \<open>
  The in-place case sends, with its UPDATE, the fetched contents with the caller's bytes
  copied in at the position.
\<close>

lemma write_in_place_payload:
  assumes "write_in_place env fd b count readBuf w2 = Inr (r, b', w')"
  shows "payloads w' = payloads w2 @
           [take (unat (length_f (crud_file_table w2 ! slot fd) AND 0xFFFFFF))
              (take (unat (position (crud_file_table w2 ! slot fd))) readBuf @
               take (unat count) b @
               drop (unat (position (crud_file_table w2 ! slot fd)) + unat count) readBuf)]"
    and "unat count \<le> length b"
    and "unat (position (crud_file_table w2 ! slot fd)) + unat count \<le> length readBuf"
proof -
  let ?e = "crud_file_table w2 ! slot fd"
  let ?q = "convert_to_CrudRequest (object_id ?e) CRUD_UPDATE (length_f ?e) 0 0"
  from assms obtain rb x where
    m: "memcpy_m readBuf (unat (position ?e)) b 0 (unat count) = Inr rb"
    and x: "crud_client_operation env ?q (Some rb) w2 = Inr x"
    unfolding write_in_place_def Let_def sum_case_Inr_iff by blast
  obtain a g3 w3 where xs: "x = (a, g3, w3)"
    by (cases x)
  note c = x [unfolded xs]
  from m have rb: "rb = take (unat (position ?e)) readBuf @ take (unat count) b @
      drop (unat (position ?e) + unat count) readBuf"
    and bounds: "unat count \<le> length b" "unat (position ?e) + unat count \<le> length readBuf"
    by (auto simp add: memcpy_m_def split: if_splits)
  have "req (parse_CrudResponse ?q) \<noteq> CRUD_INIT"
    using request_types_distinct by (simp add: request_type_of_convert)
  from client_operation_payload [OF c this] obtain p where
    p: "crud_send True ?q (Some rb) = Inr p" "payloads w3 = payloads w2 @ [p]"
    by blast
  have "payloads w' = payloads w3"
    using assms m c by (auto simp add: write_in_place_def Let_def split: if_splits)
  with p(2) send_update [OF p(1)] rb show "payloads w' = payloads w2 @
           [take (unat (length_f ?e AND 0xFFFFFF))
              (take (unat (position ?e)) readBuf @ take (unat count) b @
               drop (unat (position ?e) + unat count) readBuf)]"
    by simp
  from bounds show "unat count \<le> length b"
    and "unat (position ?e) + unat count \<le> length readBuf"
    by simp_all
qed

lemma write_past_end_effect:
  assumes "write_past_end env fd b count readBuf w2 = Inr (r, b', w')"
  shows "\<exists>ac. InitFlag w' = InitFlag w2 \<and>
          ((res (parse_CrudResponse ac) = 1 \<and> r = - 1 \<and> crud_file_table w' = crud_file_table w2 \<and>
            issued w' = issued w2 @
              [(convert_to_CrudRequest 0 CRUD_CREATE
                  (position (crud_file_table w2 ! slot fd) + count) 0 0, ac)])
          \<or> (res (parse_CrudResponse ac) \<noteq> 1 \<and>
              (\<exists>ad. issued w' = issued w2 @
                 [(convert_to_CrudRequest 0 CRUD_CREATE
                     (position (crud_file_table w2 ! slot fd) + count) 0 0, ac),
                  (convert_to_CrudRequest (object_id (crud_file_table w2 ! slot fd))
                     CRUD_DELETE 0 0 0, ad)] \<and>
                 (if res (parse_CrudResponse ad) = 1
                  then r = - 1 \<and> crud_file_table w' = crud_file_table w2
                  else r = count \<and> crud_file_table w' = (crud_file_table w2)[slot fd :=
                         (crud_file_table w2 ! slot fd)
                           \<lparr>object_id := oID (parse_CrudResponse ac),
                            length_f := position (crud_file_table w2 ! slot fd) + count,
                            position := position (crud_file_table w2 ! slot fd) + count\<rparr>]))))"
proof -
  let ?e = "crud_file_table w2 ! slot fd"
  let ?qc = "convert_to_CrudRequest 0 CRUD_CREATE (position ?e + count) 0 0"
  let ?qd = "convert_to_CrudRequest (object_id ?e) CRUD_DELETE 0 0 0"
  from assms obtain nb1 nb2 x where
    m1: "memcpy_m (malloc_m env (unat (position ?e + count))) 0 readBuf 0 (unat (length_f ?e))
           = Inr nb1"
    and m2: "memcpy_m nb1 (unat (position ?e)) b 0 (unat count) = Inr nb2"
    and x: "crud_client_operation env ?qc (Some nb2) w2 = Inr x"
    unfolding write_past_end_def Let_def sum_case_Inr_iff by blast
  obtain ac g3 w3 where xs: "x = (ac, g3, w3)"
    by (cases x)
  note c = x [unfolded xs]
  note c3 = exchange [OF c request_types_not_init(2)]
  show ?thesis
  proof (cases "res (parse_CrudResponse ac) = 1")
    case True
    with assms m1 m2 c have "r = - 1" "w' = w3"
      by (auto simp add: write_past_end_def Let_def)
    with c3 True show ?thesis by auto
  next
    case False
    with assms m1 m2 c obtain y where
      y: "crud_client_operation env
            (convert_to_CrudRequest (object_id (crud_file_table w3 ! slot fd)) CRUD_DELETE 0 0 0)
            None w3 = Inr y"
      by (auto simp add: write_past_end_def Let_def sum_case_Inr_iff)
    obtain ad g4 w4 where ys: "y = (ad, g4, w4)"
      by (cases y)
    note d = y [unfolded ys]
    note d4 = exchange [OF d request_types_not_init(5)]
    have iss: "issued w4 = issued w2 @ [(?qc, ac), (?qd, ad)]"
      using c3 d4 by simp
    have tb: "crud_file_table w4 = crud_file_table w2" "InitFlag w4 = InitFlag w2"
      using c3 d4 by simp_all
    show ?thesis
    proof (cases "res (parse_CrudResponse ad) = 1")
      case True
      with assms m1 m2 c d False have "r = - 1" "w' = w4"
        by (auto simp add: write_past_end_def Let_def)
      with iss tb True False show ?thesis by auto
    next
      case nf: False
      with assms m1 m2 c d False have "r = count"
        "w' = w4\<lparr>crud_file_table := (crud_file_table w4)[slot fd :=
                              (crud_file_table w4 ! slot fd)
                                \<lparr>object_id := oID (parse_CrudResponse ac),
                                 length_f := position (crud_file_table w4 ! slot fd) + count,
                                 position := position (crud_file_table w4 ! slot fd) + count\<rparr>]\<rparr>"
        by (auto simp add: write_past_end_def Let_def)
      with iss tb nf False show ?thesis by auto
    qed
  qed
qed

lemma bad_handle_table:
  "crud_file_table w1 = crud_file_table w \<Longrightarrow> bad_handle w1 fd = bad_handle w fd"
  by (simp add: bad_handle_def CRUD_MAX_TOTAL_FILES_def)

text \<open>
  Every returning call of \<open>crud_write\<close> either returned -1 with the table as it was,
  or went through one of the three cases with no failure reported by the store.
\<close>

lemma crud_write_cases:
  assumes run: "crud_write env fd buf count w = Inr (r, b', w')"
  obtains
    (failed) "r = - 1" "crud_file_table w' = crud_file_table w"
  | (created) a where
      "0 \<le> sint count" "\<not> bad_handle w fd" "open_f (crud_file_table w ! slot fd) \<noteq> 0"
      "object_id (crud_file_table w ! slot fd) = 0"
      "r = count"
      "crud_file_table w' = (crud_file_table w)[slot fd :=
         (crud_file_table w ! slot fd)\<lparr>object_id := oID (parse_CrudResponse a),
            length_f := count, position := count\<rparr>]"
      "\<not> list_ex reports_failure (issued_since w w')"
      "InitFlag w' \<noteq> 0"
  | (grown) a where
      "0 \<le> sint count" "\<not> bad_handle w fd" "open_f (crud_file_table w ! slot fd) \<noteq> 0"
      "object_id (crud_file_table w ! slot fd) \<noteq> 0"
      "position (crud_file_table w ! slot fd) + count > length_f (crud_file_table w ! slot fd)"
      "r = count"
      "crud_file_table w' = (crud_file_table w)[slot fd :=
         (crud_file_table w ! slot fd)\<lparr>object_id := oID (parse_CrudResponse a),
            length_f := position (crud_file_table w ! slot fd) + count,
            position := position (crud_file_table w ! slot fd) + count\<rparr>]"
      "\<not> list_ex reports_failure (issued_since w w')"
      "InitFlag w' \<noteq> 0"
  | (updated) a b0 where
      "buf = Some b0"
      "0 \<le> sint count" "\<not> bad_handle w fd" "open_f (crud_file_table w ! slot fd) \<noteq> 0"
      "object_id (crud_file_table w ! slot fd) \<noteq> 0"
      "\<not> position (crud_file_table w ! slot fd) + count > length_f (crud_file_table w ! slot fd)"
      "r = count"
      "crud_file_table w' = (crud_file_table w)[slot fd :=
         (crud_file_table w ! slot fd)\<lparr>position := position (crud_file_table w ! slot fd) + count\<rparr>]"
      "\<not> list_ex reports_failure (issued_since w w')"
      "last (issued w') = (convert_to_CrudRequest (object_id (crud_file_table w ! slot fd))
          CRUD_UPDATE (length_f (crud_file_table w ! slot fd)) 0 0, a)"
      "InitFlag w' \<noteq> 0"
      "last (payloads w') =
         take (unat (length_f (crud_file_table w ! slot fd) AND 0xFFFFFF))
           (take (unat (position (crud_file_table w ! slot fd))) (fetched env fd w) @
            take (unat count) b0 @
            drop (unat (position (crud_file_table w ! slot fd)) + unat count) (fetched env fd w))"
      "length (fetched env fd w) = unat (length_f (crud_file_table w ! slot fd))"
      "unat count \<le> length b0"
proof -
  from run obtain x where x: "crud_init env w = Inr x"
    unfolding crud_write_def sum_case_Inr_iff by blast
  obtain go w1 where xs: "x = (go, w1)" by (cases x)
  note i = x [unfolded xs]
  note ie = crud_init_effect [OF i]
  from ie(4) obtain new0 where
    n0: "issued w1 = issued w @ new0" "go \<longrightarrow> \<not> list_ex reports_failure new0"
    by blast
  let ?e = "crud_file_table w ! slot fd"
  show thesis
  proof (cases "go \<and> buf \<noteq> None \<and> 0 \<le> sint count \<and> \<not> bad_handle w fd \<and> open_f ?e \<noteq> 0")
    case False
    with run i ie(1) bad_handle_table [OF ie(1), of fd] have "r = - 1" "w' = w1"
      by (auto simp add: crud_write_def split: option.splits if_splits bool.splits)
    with ie(1) show thesis by (intro failed) simp_all
  next
    case True
    then obtain b where b: "buf = Some b" by auto
    from True have go: go and cnt: "0 \<le> sint count" and bh: "\<not> bad_handle w fd"
      and op: "open_f ?e \<noteq> 0" by simp_all
    have cn1: "count \<noteq> - 1" using cnt by auto
    have bh1: "\<not> bad_handle w1 fd" using bh bad_handle_table [OF ie(1), of fd] by simp
    show thesis
    proof (cases "object_id ?e = 0")
      case True
      with run i go b cnt bh1 op ie(1) have wn: "write_new env fd b count w1 = Inr (r, b', w')"
        by (simp add: crud_write_def)
      from write_new_effect [OF wn] obtain a where
        a: "issued w' = issued w1 @ [(convert_to_CrudRequest 0 CRUD_CREATE count 0 0, a)]"
        "InitFlag w' = InitFlag w1"
        "if res (parse_CrudResponse a) = 1 then r = - 1 \<and> crud_file_table w' = crud_file_table w1
            else r = count \<and> crud_file_table w' = (crud_file_table w1)[slot fd :=
                   (crud_file_table w1 ! slot fd)
                     \<lparr>object_id := oID (parse_CrudResponse a), length_f := count, position := count\<rparr>]"
        by blast
      show thesis
      proof (cases "res (parse_CrudResponse a) = 1")
        case True
        with a(3) ie(1) show thesis by (intro failed) simp_all
      next
        case False
        have "issued_since w w' = new0 @ [(convert_to_CrudRequest 0 CRUD_CREATE count 0 0, a)]"
          using a(1) n0(1) by (simp add: issued_since_def)
        with False n0(2) go have "\<not> list_ex reports_failure (issued_since w w')"
          by (simp add: reports_failure_def)
        with False a(2,3) ie(1) ie(2) [OF go] cnt bh op True show thesis
          by (intro created [of a]) simp_all
      qed
    next
      case oid: False
      let ?q = "convert_to_CrudRequest (object_id ?e) CRUD_READ (length_f ?e) 0 0"
      from run i go b cnt bh1 op ie(1) oid obtain y where
        y: "crud_client_operation env ?q (Some (malloc_m env (unat (length_f ?e)))) w1 = Inr y"
        by (auto simp add: crud_write_def Let_def sum_case_Inr_iff)
      obtain rr got w2 where ys: "y = (rr, got, w2)" by (cases y)
      note rd = y [unfolded ys]
      note re = exchange [OF rd request_types_not_init(3)]
      have t2: "crud_file_table w2 = crud_file_table w" using re(2) ie(1) by simp
      show thesis
      proof (cases "res (parse_CrudResponse rr) = 1")
        case True
        with run i go b cnt bh1 op ie(1) oid rd have "r = - 1" "w' = w2"
          by (auto simp add: crud_write_def Let_def)
        with t2 show thesis by (intro failed) simp_all
      next
        case rok: False
        have pre: "issued w2 = issued w @ new0 @ [(?q, rr)]"
          using re(1) n0(1) by simp
        have prok: "\<not> list_ex reports_failure (new0 @ [(?q, rr)])"
          using n0(2) go rok by (simp add: reports_failure_def)
        show thesis
        proof (cases "position ?e + count > length_f ?e")
          case True
          with run i go b cnt bh1 op ie(1) oid rd rok t2 obtain rb where
            wp: "write_past_end env fd b count rb w2 = Inr (r, b', w')"
            by (auto simp add: crud_write_def Let_def)
          from write_past_end_effect [OF wp] obtain ac where
            fl: "InitFlag w' = InitFlag w2" and
            ac: "(res (parse_CrudResponse ac) = 1 \<and> r = - 1 \<and> crud_file_table w' = crud_file_table w2)
              \<or> (res (parse_CrudResponse ac) \<noteq> 1 \<and>
              (\<exists>ad. issued w' = issued w2 @
                 [(convert_to_CrudRequest 0 CRUD_CREATE
                     (position (crud_file_table w2 ! slot fd) + count) 0 0, ac),
                  (convert_to_CrudRequest (object_id (crud_file_table w2 ! slot fd))
                     CRUD_DELETE 0 0 0, ad)] \<and>
                 (if res (parse_CrudResponse ad) = 1
                  then r = - 1 \<and> crud_file_table w' = crud_file_table w2
                  else r = count \<and> crud_file_table w' = (crud_file_table w2)[slot fd :=
                         (crud_file_table w2 ! slot fd)
                           \<lparr>object_id := oID (parse_CrudResponse ac),
                            length_f := position (crud_file_table w2 ! slot fd) + count,
                            position := position (crud_file_table w2 ! slot fd) + count\<rparr>])))"
            by blast
          show thesis
          proof (cases "r = - 1")
            case True
            with ac t2 cn1 have "crud_file_table w' = crud_file_table w"
              by (auto split: if_splits)
            with True show thesis by (intro failed)
          next
            case False
            with ac obtain ad where
              ok: "res (parse_CrudResponse ac) \<noteq> 1" "res (parse_CrudResponse ad) \<noteq> 1"
              and iss: "issued w' = issued w2 @
                 [(convert_to_CrudRequest 0 CRUD_CREATE
                     (position (crud_file_table w2 ! slot fd) + count) 0 0, ac),
                  (convert_to_CrudRequest (object_id (crud_file_table w2 ! slot fd))
                     CRUD_DELETE 0 0 0, ad)]"
              and res: "r = count" "crud_file_table w' = (crud_file_table w2)[slot fd :=
                         (crud_file_table w2 ! slot fd)
                           \<lparr>object_id := oID (parse_CrudResponse ac),
                            length_f := position (crud_file_table w2 ! slot fd) + count,
                            position := position (crud_file_table w2 ! slot fd) + count\<rparr>]"
              by (auto split: if_splits)
            have "\<not> list_ex reports_failure (issued_since w w')"
              using iss pre prok ok by (simp add: issued_since_def reports_failure_def)
            with res t2 cnt bh op oid True fl re(3) ie(2) [OF go] show thesis
              by (intro grown [of ac]) simp_all
          qed
        next
          case npe: False
          let ?rb = "malloc_m env (unat (length_f ?e))"
          from npe run i go b cnt bh1 op ie(1) oid rd rok t2 have
            wp: "write_in_place env fd b count (stored got ?rb) w2 = Inr (r, b', w')"
            by (auto simp add: crud_write_def Let_def)
          have fe: "fetched env fd w = stored got ?rb"
            using i rd ie(1) by (simp add: fetched_def Let_def)
          have fl: "length (fetched env fd w) = unat (length_f ?e)"
            using fe client_operation_got_length [OF rd]
            by (simp add: stored_length malloc_length)
          note wpp = write_in_place_payload [OF wp]
          have pay: "last (payloads w') =
              take (unat (length_f ?e AND 0xFFFFFF))
                (take (unat (position ?e)) (fetched env fd w) @ take (unat count) b @
                 drop (unat (position ?e) + unat count) (fetched env fd w))"
            using wpp(1) fe t2 by simp
          from write_in_place_effect [OF wp] obtain a where
            a: "issued w' = issued w2 @
              [(convert_to_CrudRequest (object_id (crud_file_table w2 ! slot fd)) CRUD_UPDATE
                  (length_f (crud_file_table w2 ! slot fd)) 0 0, a)]"
            "InitFlag w' = InitFlag w2"
            "if res (parse_CrudResponse a) = 1 then r = - 1 \<and> crud_file_table w' = crud_file_table w2
            else r = count \<and> crud_file_table w' = (crud_file_table w2)[slot fd :=
                   (crud_file_table w2 ! slot fd)
                     \<lparr>position := position (crud_file_table w2 ! slot fd) + count\<rparr>]"
            by blast
          show thesis
          proof (cases "res (parse_CrudResponse a) = 1")
            case True
            with a(3) t2 show thesis by (intro failed) simp_all
          next
            case False
            have "\<not> list_ex reports_failure (issued_since w w')"
              using a(1) pre prok False by (simp add: issued_since_def reports_failure_def)
            moreover have "last (issued w') = (convert_to_CrudRequest (object_id ?e)
                CRUD_UPDATE (length_f ?e) 0 0, a)"
              using a(1) t2 by simp
            ultimately show thesis
              using False a(2,3) t2 cnt bh op oid npe re(3) ie(2) [OF go] b pay fl wpp(2)
              by (intro updated [of b a]) simp_all
          qed
        qed
      qed
    qed
  qed
qed

text \<open>
  Claim C1. For every call of \<open>crud_write\<close> that returns (on any handle, in any of the
  three cases): a successful call returns exactly the requested count; a call that
  returns -1 leaves the whole table, and so the entry of the handle, as it was; and if
  any response received during the call (INIT, READ, CREATE, UPDATE or DELETE) reports
  failure, the call returns -1 with the table unchanged.
\<close>

theorem C1_write_all_or_nothing:
  assumes "crud_write env fd buf count w = Inr (r, b', w')"
  shows "(r \<noteq> - 1 \<longrightarrow> r = count) \<and>
         (r = - 1 \<longrightarrow> crud_file_table w' = crud_file_table w) \<and>
         (list_ex reports_failure (issued_since w w') \<longrightarrow>
            r = - 1 \<and> crud_file_table w' = crud_file_table w)"
  using assms
proof (cases rule: crud_write_cases)
  case failed
  then show ?thesis by simp
next
  case (created a)
  then show ?thesis by auto
next
  case (grown a)
  then show ?thesis by auto
next
  case (updated a b0)
  then show ?thesis by auto
qed

theorem C1_write_all_or_nothing_witness:
  "crud_write store_env 0 (Some [9]) 1 (one_file 2 2 [7, 8] [CRUD_DELETE]) =
     Inr (- 1, Some [9],
          (one_file 2 2 [7, 8] [CRUD_DELETE])
            \<lparr>remote := \<lparr> next_oid = 3, objects = [(2, [7, 8, 9]), (1, [7, 8])],
                         refused = [CRUD_DELETE] \<rparr>,
             issued := [(5100273696, 5100273696), (536870960, 9126805552),
                        (5637144576, 5637144577)], payloads := [[], [7, 8, 9], []]\<rparr>)
   \<and> reports_failure (5637144576, 5637144577)
   \<and> crud_file_table
        ((one_file 2 2 [7, 8] [CRUD_DELETE])
            \<lparr>remote := \<lparr> next_oid = 3, objects = [(2, [7, 8, 9]), (1, [7, 8])],
                         refused = [CRUD_DELETE] \<rparr>,
             issued := [(5100273696, 5100273696), (536870960, 9126805552),
                        (5637144576, 5637144577)], payloads := [[], [7, 8, 9], []]\<rparr>)
       = crud_file_table (one_file 2 2 [7, 8] [CRUD_DELETE])
   \<and> crud_write store_env 0 (Some [3, 4]) 2 (one_file 0 1 [5] []) =
     Inr (2, Some [3, 4],
          (one_file 0 1 [5] [])
            \<lparr>crud_file_table :=
               [\<lparr> filename = ''a'', object_id = 2, position = 2, length_f = 2, open_f = 1 \<rparr>,
                empty_slot],
             remote := \<lparr> next_oid = 3, objects = [(2, [3, 4])], refused = [] \<rparr>,
             issued := [(5100273680, 5100273680), (536870944, 9126805536),
                        (5637144576, 5637144576)], payloads := [[], [3, 4], []]\<rparr>)"
proof -
  have h: "crud_write store_env 0 (Some [9]) 1 (one_file 2 2 [7, 8] [CRUD_DELETE]) =
     Inr (- 1, Some [9],
          (one_file 2 2 [7, 8] [CRUD_DELETE])
            \<lparr>remote := \<lparr> next_oid = 3, objects = [(2, [7, 8, 9]), (1, [7, 8])],
                         refused = [CRUD_DELETE] \<rparr>,
             issued := [(5100273696, 5100273696), (536870960, 9126805552),
                        (5637144576, 5637144577)], payloads := [[], [7, 8, 9], []]\<rparr>)"
    by code_simp
  have f: "reports_failure (5637144576, 5637144577)"
    by code_simp
  have g: "crud_write store_env 0 (Some [3, 4]) 2 (one_file 0 1 [5] []) =
     Inr (2, Some [3, 4],
          (one_file 0 1 [5] [])
            \<lparr>crud_file_table :=
               [\<lparr> filename = ''a'', object_id = 2, position = 2, length_f = 2, open_f = 1 \<rparr>,
                empty_slot],
             remote := \<lparr> next_oid = 3, objects = [(2, [3, 4])], refused = [] \<rparr>,
             issued := [(5100273680, 5100273680), (536870944, 9126805536),
                        (5637144576, 5637144576)], payloads := [[], [3, 4], []]\<rparr>)"
    by code_simp
  from C1_write_all_or_nothing [OF h] C1_write_all_or_nothing [OF g] h f g show ?thesis
    by simp
qed

text \<open>
  Claim C2, as amended. In a call of \<open>crud_write\<close> whose last two exchanges are a CREATE
  that succeeded and a DELETE that reported failure (the case where the write goes
  past the end of the object), the call returns -1 and the table is unchanged: the
  entry of the handle still holds the old identifier, and its length and position are
  the old ones.
\<close>

theorem C2_failed_delete_keeps_old_identifier:
  assumes "crud_write env fd buf count w = Inr (r, b', w')"
    and "issued_since w w' = before @ [(qc, ac), (qd, ad)]"
    and "req (parse_CrudResponse qc) = CRUD_CREATE" and "res (parse_CrudResponse ac) = 0"
    and "req (parse_CrudResponse qd) = CRUD_DELETE" and "res (parse_CrudResponse ad) = 1"
  shows "r = - 1 \<and> crud_file_table w' = crud_file_table w \<and>
         object_id (crud_file_table w' ! slot fd) = object_id (crud_file_table w ! slot fd)"
proof -
  have f: "list_ex reports_failure (issued_since w w')"
    using assms(2,6) by (simp add: reports_failure_def)
  from assms(1) show ?thesis
  proof (cases rule: crud_write_cases)
    case failed
    then show ?thesis by simp
  next
    case (created a)
    with f show ?thesis by simp
  next
    case (grown a)
    with f show ?thesis by simp
  next
    case (updated a b0)
    with f show ?thesis by simp
  qed
qed

theorem C2_failed_delete_keeps_old_identifier_witness:
  "crud_write store_env 0 (Some [6, 7]) 2 (one_file 0 1 [5] [CRUD_DELETE]) =
     Inr (- 1, Some [6, 7],
          (one_file 0 1 [5] [CRUD_DELETE])
            \<lparr>remote := \<lparr> next_oid = 3, objects = [(2, [6, 7]), (1, [5])],
                         refused = [CRUD_DELETE] \<rparr>,
             issued := [(5100273680, 5100273680), (536870944, 9126805536),
                        (5637144576, 5637144577)], payloads := [[], [6, 7], []]\<rparr>)
   \<and> req (parse_CrudResponse 536870944) = CRUD_CREATE
   \<and> res (parse_CrudResponse 9126805536) = 0
   \<and> req (parse_CrudResponse 5637144576) = CRUD_DELETE
   \<and> res (parse_CrudResponse 5637144577) = 1
   \<and> object_id (crud_file_table (one_file 0 1 [5] [CRUD_DELETE]) ! slot 0) = 1"
proof -
  let ?w = "one_file 0 1 [5] [CRUD_DELETE]"
  let ?w' = "?w\<lparr>remote := \<lparr> next_oid = 3, objects = [(2, [6, 7]), (1, [5])],
                         refused = [CRUD_DELETE] \<rparr>,
             issued := [(5100273680, 5100273680), (536870944, 9126805536),
                        (5637144576, 5637144577)], payloads := [[], [6, 7], []]\<rparr>"
  have h: "crud_write store_env 0 (Some [6, 7]) 2 ?w = Inr (- 1, Some [6, 7], ?w')"
    by code_simp
  have i: "issued_since ?w ?w' =
      [(5100273680, 5100273680)] @ [(536870944, 9126805536), (5637144576, 5637144577)]"
    by code_simp
  have p: "req (parse_CrudResponse 536870944) = CRUD_CREATE"
    "res (parse_CrudResponse 9126805536) = 0"
    "req (parse_CrudResponse 5637144576) = CRUD_DELETE"
    "res (parse_CrudResponse 5637144577) = 1"
    by code_simp+
  have o: "object_id (crud_file_table ?w ! slot 0) = 1"
    by code_simp
  from C2_failed_delete_keeps_old_identifier [OF h i p] h p o show ?thesis
    by simp
qed

text \<open>
  The claim as stated fails: here the CREATE of the replacement object succeeds (the
  store assigns identifier 2), the DELETE of object 1 reports failure, the call returns
  -1, and the entry still holds identifier 1.
\<close>

theorem C2_counterexample:
  "crud_write store_env 0 (Some [4]) 1 (one_file 3 3 [1, 2, 3] [CRUD_DELETE]) =
     Inr (- 1, Some [4],
          (one_file 3 3 [1, 2, 3] [CRUD_DELETE])
            \<lparr>remote := \<lparr> next_oid = 3, objects = [(2, [1, 2, 3, 4]), (1, [1, 2, 3])],
                         refused = [CRUD_DELETE] \<rparr>,
             issued := [(5100273712, 5100273712), (536870976, 9126805568),
                        (5637144576, 5637144577)], payloads := [[], [1, 2, 3, 4], []]\<rparr>)
   \<and> req (parse_CrudResponse 536870976) = CRUD_CREATE
   \<and> res (parse_CrudResponse 9126805568) = 0
   \<and> oID (parse_CrudResponse 9126805568) = 2
   \<and> req (parse_CrudResponse 5637144576) = CRUD_DELETE
   \<and> res (parse_CrudResponse 5637144577) = 1
   \<and> object_id (crud_file_table
        ((one_file 3 3 [1, 2, 3] [CRUD_DELETE])
            \<lparr>remote := \<lparr> next_oid = 3, objects = [(2, [1, 2, 3, 4]), (1, [1, 2, 3])],
                         refused = [CRUD_DELETE] \<rparr>,
             issued := [(5100273712, 5100273712), (536870976, 9126805568),
                        (5637144576, 5637144577)], payloads := [[], [1, 2, 3, 4], []]\<rparr>) ! slot 0) = 1"
  by code_simp

lemma slot_in_table:
  "\<not> bad_handle w fd \<Longrightarrow> slot fd < length (crud_file_table w)"
  by (auto simp add: bad_handle_def slot_def CRUD_MAX_TOTAL_FILES_def)

lemma no_wrap_le:
  fixes p c l :: "32 word"
  assumes "unat p + unat c \<le> unat l"
  shows "p + c \<le> l" and "unat (p + c) = unat p + unat c"
proof -
  have "unat l < 2 ^ 32" using unsigned_less [of l] by simp
  with assms have lt: "unat p + unat c < 2 ^ 32" by simp
  then show u: "unat (p + c) = unat p + unat c"
    by (simp add: unat_word_ariths)
  with assms show "p + c \<le> l" by (simp add: word_le_nat_alt)
qed

text \<open>
  Claim C8. For a handle whose entry has an assigned object (identifier not 0) and a
  write with \<open>position + count \<le> length\<close>, a successful \<open>crud_write\<close> returns the count and
  changes nothing in the table but the position of that entry, which advances by the
  count: the length and the identifier of the entry are unchanged. The last request of
  the call is an UPDATE of the same identifier with the same length, and the contents
  sent with it are the fetched contents of the object with the first \<open>count\<close> bytes of
  the caller's buffer in place of the bytes at \<open>[position, position + count)\<close>: the
  bytes before and after that range are the fetched ones. (The transport sends as many
  bytes as the 24-bit length field of the descriptor says; for a length below \<open>2^24\<close>
  that is the whole object.)
\<close>

theorem C8_write_in_place:
  assumes "crud_write env fd (Some b) count w = Inr (r, b', w')"
    and "r \<noteq> - 1"
    and "object_id (crud_file_table w ! slot fd) \<noteq> 0"
    and "unat (position (crud_file_table w ! slot fd)) + unat count
           \<le> unat (length_f (crud_file_table w ! slot fd))"
  shows "r = count \<and>
         length_f (crud_file_table w' ! slot fd) = length_f (crud_file_table w ! slot fd) \<and>
         object_id (crud_file_table w' ! slot fd) = object_id (crud_file_table w ! slot fd) \<and>
         crud_file_table w' = (crud_file_table w)[slot fd :=
           (crud_file_table w ! slot fd)
             \<lparr>position := position (crud_file_table w ! slot fd) + count\<rparr>] \<and>
         fst (last (issued w')) =
           convert_to_CrudRequest (object_id (crud_file_table w ! slot fd)) CRUD_UPDATE
             (length_f (crud_file_table w ! slot fd)) 0 0 \<and>
         length (fetched env fd w) = unat (length_f (crud_file_table w ! slot fd)) \<and>
         last (payloads w') =
           take (unat (length_f (crud_file_table w ! slot fd) AND 0xFFFFFF))
             (take (unat (position (crud_file_table w ! slot fd))) (fetched env fd w) @
              take (unat count) b @
              drop (unat (position (crud_file_table w ! slot fd)) + unat count)
                (fetched env fd w)) \<and>
         (length_f (crud_file_table w ! slot fd) < 2 ^ 24 \<longrightarrow>
            last (payloads w') =
              take (unat (position (crud_file_table w ! slot fd))) (fetched env fd w) @
              take (unat count) b @
              drop (unat (position (crud_file_table w ! slot fd)) + unat count)
                (fetched env fd w))"
  using assms(1)
proof (cases rule: crud_write_cases)
  case failed
  with assms(2) show ?thesis by simp
next
  case (created a)
  with assms(3) show ?thesis by simp
next
  case (grown a)
  with no_wrap_le(1) [OF assms(4)] show ?thesis by simp
next
  case (updated a b0)
  let ?e = "crud_file_table w ! slot fd"
  let ?spliced = "take (unat (position ?e)) (fetched env fd w) @ take (unat count) b @
                  drop (unat (position ?e) + unat count) (fetched env fd w)"
  have b0: "b0 = b" using updated(1) by simp
  have len: "length ?spliced = unat (length_f ?e)"
    using updated(13,14) assms(4) b0 by simp
  have whole: "last (payloads w') = ?spliced" if "length_f ?e < 2 ^ 24"
  proof -
    have "length_f ?e AND 0xFFFFFF = length_f ?e"
      unfolding ffffff_mask using that by (intro less_mask_eq) simp
    then have "last (payloads w') = take (length ?spliced) ?spliced"
      unfolding len using updated(12) b0 by (simp only:)
    then show ?thesis by (simp only: take_all order_refl)
  qed
  from updated slot_in_table [of w fd] b0 whole show ?thesis by simp
qed

theorem C8_write_in_place_witness:
  "crud_write store_env 0 (Some [5, 6]) 2 (one_file 1 5 [1, 2, 3, 4, 5] []) =
     Inr (2, Some [5, 6],
          (one_file 1 5 [1, 2, 3, 4, 5] [])
            \<lparr>crud_file_table :=
               [\<lparr> filename = ''a'', object_id = 1, position = 3, length_f = 5, open_f = 1 \<rparr>,
                empty_slot],
             remote := \<lparr> next_oid = 2,
                         objects = [(1, [1, 5, 6, 4, 5]), (1, [1, 2, 3, 4, 5])],
                         refused = [] \<rparr>,
             issued := [(5100273744, 5100273744), (5368709200, 5368709200)],
             payloads := [[], [1, 5, 6, 4, 5]]\<rparr>)
   \<and> convert_to_CrudRequest 1 CRUD_UPDATE 5 0 0 = 5368709200
   \<and> fetched store_env 0 (one_file 1 5 [1, 2, 3, 4, 5] []) = [1, 2, 3, 4, 5]
   \<and> take 1 [1, 2, 3, 4, 5] @ take 2 [5, 6] @ drop (1 + 2) [1, 2, 3, 4, 5]
       = [1, 5, 6, 4, 5 :: byte]"
proof -
  let ?w = "one_file 1 5 [1, 2, 3, 4, 5] []"
  let ?w' = "?w\<lparr>crud_file_table :=
               [\<lparr> filename = ''a'', object_id = 1, position = 3, length_f = 5, open_f = 1 \<rparr>,
                empty_slot],
             remote := \<lparr> next_oid = 2,
                         objects = [(1, [1, 5, 6, 4, 5]), (1, [1, 2, 3, 4, 5])],
                         refused = [] \<rparr>,
             issued := [(5100273744, 5100273744), (5368709200, 5368709200)],
             payloads := [[], [1, 5, 6, 4, 5]]\<rparr>"
  have h: "crud_write store_env 0 (Some [5, 6]) 2 ?w = Inr (2, Some [5, 6], ?w')"
    by code_simp
  have a: "(2 :: 32 word) \<noteq> - 1" by simp
  have b: "object_id (crud_file_table ?w ! slot 0) \<noteq> 0" by code_simp
  have c: "unat (position (crud_file_table ?w ! slot 0)) + unat (2 :: 32 word)
           \<le> unat (length_f (crud_file_table ?w ! slot 0))" by code_simp
  have d: "object_id (crud_file_table ?w ! slot 0) = 1" "length_f (crud_file_table ?w ! slot 0) = 5"
    by code_simp+
  have f: "fetched store_env 0 ?w = [1, 2, 3, 4, 5]"
    by code_simp
  have g: "convert_to_CrudRequest 1 CRUD_UPDATE 5 0 0 = 5368709200"
    using C8_write_in_place [OF h a b c] d by simp
  from h f g show ?thesis
    by simp
qed


section \<open>Properties of crud\_read\<close>

lemma memcpy_front:
  "memcpy_m b 0 src p n = Inr b1 \<Longrightarrow> b1 = take n (drop p src) @ drop n b \<and> n \<le> length b"
  by (auto simp add: memcpy_m_def split: if_splits)

text \<open>
  A returning call of \<open>crud_read\<close> either returned -1 with the table as it was, or
  copied from the fetched object and advanced the position.
\<close>

lemma crud_read_cases:
  assumes run: "crud_read env fd buf count w = Inr (r, b', w')"
  obtains
    (failed) "r = - 1" "crud_file_table w' = crud_file_table w"
  | (copied) b where
      "buf = Some b"
      "0 \<le> sint count" "\<not> bad_handle w fd" "open_f (crud_file_table w ! slot fd) \<noteq> 0"
      "r = (if count > length_f (crud_file_table w ! slot fd) - position (crud_file_table w ! slot fd)
            then length_f (crud_file_table w ! slot fd) - position (crud_file_table w ! slot fd)
            else count)"
      "b' = Some (take (unat r) (drop (unat (position (crud_file_table w ! slot fd)))
                    (fetched env fd w)) @ drop (unat r) b)"
      "unat r \<le> length b"
      "crud_file_table w' = (crud_file_table w)[slot fd :=
         (crud_file_table w ! slot fd)\<lparr>position :=
            (if count > length_f (crud_file_table w ! slot fd) - position (crud_file_table w ! slot fd)
             then length_f (crud_file_table w ! slot fd)
             else position (crud_file_table w ! slot fd) + count)\<rparr>]"
      "\<not> list_ex reports_failure (issued_since w w')"
      "InitFlag w' \<noteq> 0"
proof -
  from run obtain x where x: "crud_init env w = Inr x"
    unfolding crud_read_def sum_case_Inr_iff by blast
  obtain go w1 where xs: "x = (go, w1)" by (cases x)
  note i = x [unfolded xs]
  note ie = crud_init_effect [OF i]
  from ie(4) obtain new0 where
    n0: "issued w1 = issued w @ new0" "go \<longrightarrow> \<not> list_ex reports_failure new0"
    by blast
  let ?e = "crud_file_table w ! slot fd"
  show thesis
  proof (cases "go \<and> \<not> bad_handle w fd \<and> 0 \<le> sint count \<and> open_f ?e \<noteq> 0")
    case False
    with run i ie(1) bad_handle_table [OF ie(1), of fd] have "r = - 1" "w' = w1"
      by (auto simp add: crud_read_def split: if_splits bool.splits)
    with ie(1) show thesis by (intro failed) simp_all
  next
    case True
    then have go: go and cnt: "0 \<le> sint count" and bh: "\<not> bad_handle w fd"
      and op: "open_f ?e \<noteq> 0" by simp_all
    have bh1: "\<not> bad_handle w1 fd" using bh bad_handle_table [OF ie(1), of fd] by simp
    let ?q = "convert_to_CrudRequest (object_id ?e) CRUD_READ (length_f ?e) 0 0"
    let ?rb = "malloc_m env (unat (length_f ?e))"
    from run i go cnt bh1 op ie(1) obtain y where
      y: "crud_client_operation env ?q (Some ?rb) w1 = Inr y"
      by (auto simp add: crud_read_def Let_def sum_case_Inr_iff)
    obtain rr got w2 where ys: "y = (rr, got, w2)" by (cases y)
    note rd = y [unfolded ys]
    note re = exchange [OF rd request_types_not_init(3)]
    have t2: "crud_file_table w2 = crud_file_table w" using re(2) ie(1) by simp
    have fe: "fetched env fd w = stored got ?rb"
      using i rd ie(1) by (simp add: fetched_def Let_def)
    show thesis
    proof (cases "res (parse_CrudResponse rr) = 1")
      case True
      with run i go cnt bh1 op ie(1) rd have "r = - 1" "w' = w2"
        by (auto simp add: crud_read_def Let_def)
      with t2 show thesis by (intro failed) simp_all
    next
      case rok: False
      have nf: "\<not> list_ex reports_failure (issued_since w w2)"
        using re(1) n0 go rok by (simp add: issued_since_def reports_failure_def)
      have fl: "InitFlag w2 \<noteq> 0" using re(3) ie(2) [OF go] by simp
      from run i go cnt bh1 op ie(1) rd rok t2 obtain b where b: "buf = Some b"
        by (auto simp add: crud_read_def Let_def split: option.splits)
      show thesis
      proof (cases "count > length_f ?e - position ?e")
        case True
        with run i go cnt bh1 op ie(1) rd rok t2 b obtain b1 where
          m: "memcpy_m b 0 (stored got ?rb) (unat (position ?e))
                (unat (length_f ?e - position ?e)) = Inr b1"
          and "r = length_f ?e - position ?e" "b' = Some b1"
          "w' = w2\<lparr>crud_file_table := (crud_file_table w2)[slot fd :=
                  ?e\<lparr>position := length_f ?e\<rparr>]\<rparr>"
          by (auto simp add: crud_read_def Let_def sum_case_Inr_iff)
        with True memcpy_front [OF m] fe t2 b cnt bh op nf fl show thesis
          by (intro copied [of b]) (simp_all add: issued_since_def)
      next
        case False
        with run i go cnt bh1 op ie(1) rd rok t2 b obtain b1 where
          m: "memcpy_m b 0 (stored got ?rb) (unat (position ?e)) (unat count) = Inr b1"
          and "r = count" "b' = Some b1"
          "w' = w2\<lparr>crud_file_table := (crud_file_table w2)[slot fd :=
                  ?e\<lparr>position := position ?e + count\<rparr>]\<rparr>"
          by (auto simp add: crud_read_def Let_def sum_case_Inr_iff)
        with False memcpy_front [OF m] fe t2 b cnt bh op nf fl show thesis
          by (intro copied [of b]) (simp_all add: issued_since_def)
      qed
    qed
  qed
qed

text \<open>
  Claim C5. For an open handle whose entry has position \<open>p\<close> and length \<open>L\<close> with
  \<open>p \<le> L\<close>, a successful \<open>crud_read\<close> of \<open>count\<close> bytes (the count is then not negative)
  returns \<open>min count (L - p)\<close>, stores that many bytes, taken from offset \<open>p\<close> of the
  fetched contents of the backing object, at the start of the output buffer (the rest of
  the buffer is untouched), and advances the position by the same amount, changing
  nothing else in the table. Asking for more than the \<open>L - p\<close> bytes that remain is not
  an error: the call returns \<open>L - p\<close> and the position becomes \<open>L\<close>.
\<close>

theorem C5_read_copies_min:
  assumes "crud_read env fd (Some b) count w = Inr (r, b', w')"
    and "r \<noteq> - 1"
    and "position (crud_file_table w ! slot fd) \<le> length_f (crud_file_table w ! slot fd)"
  shows "0 \<le> sint count \<and>
         unat r = min (unat count)
                    (unat (length_f (crud_file_table w ! slot fd))
                       - unat (position (crud_file_table w ! slot fd))) \<and>
         b' = Some (take (unat r) (drop (unat (position (crud_file_table w ! slot fd)))
                      (fetched env fd w)) @ drop (unat r) b) \<and>
         crud_file_table w' = (crud_file_table w)[slot fd :=
           (crud_file_table w ! slot fd)
             \<lparr>position := position (crud_file_table w ! slot fd) + r\<rparr>] \<and>
         unat (position (crud_file_table w ! slot fd) + r)
           = unat (position (crud_file_table w ! slot fd)) + unat r \<and>
         (unat count > unat (length_f (crud_file_table w ! slot fd))
                         - unat (position (crud_file_table w ! slot fd))
            \<longrightarrow> position (crud_file_table w ! slot fd) + r
                  = length_f (crud_file_table w ! slot fd))"
  using assms(1)
proof (cases rule: crud_read_cases)
  case failed
  with assms(2) show ?thesis by simp
next
  case (copied b0)
  let ?p = "position (crud_file_table w ! slot fd)"
  let ?l = "length_f (crud_file_table w ! slot fd)"
  have sub: "unat (?l - ?p) = unat ?l - unat ?p"
    using assms(3) by (simp add: unat_sub)
  have cmp: "count > ?l - ?p \<longleftrightarrow> unat count > unat ?l - unat ?p"
    using sub by (simp add: word_less_nat_alt)
  have b0: "b0 = b" using copied(1) by simp
  show ?thesis
  proof (cases "count > ?l - ?p")
    case True
    with copied have r: "r = ?l - ?p" by simp
    have "unat ?p + unat r \<le> unat ?l"
      using r sub assms(3) by (simp add: word_le_nat_alt)
    from no_wrap_le(2) [OF this] True copied b0 r sub cmp show ?thesis
      by simp
  next
    case False
    with copied have r: "r = count" by simp
    have "unat ?p + unat r \<le> unat ?l"
      using r False cmp assms(3) by (simp add: word_le_nat_alt)
    from no_wrap_le(2) [OF this] False copied b0 r sub cmp show ?thesis
      by simp
  qed
qed

theorem C5_read_copies_min_witness:
  "crud_read store_env 0 (Some [0, 0, 0, 0]) 100
      (one_file 8 10 [10, 11, 12, 13, 14, 15, 16, 17, 18, 19] []) =
     Inr (2, Some [18, 19, 0, 0],
          (one_file 8 10 [10, 11, 12, 13, 14, 15, 16, 17, 18, 19] [])
            \<lparr>crud_file_table :=
               [\<lparr> filename = ''a'', object_id = 1, position = 10, length_f = 10, open_f = 1 \<rparr>,
                empty_slot],
             issued := [(5100273824, 5100273824)], payloads := [[]]\<rparr>)
   \<and> fetched store_env 0 (one_file 8 10 [10, 11, 12, 13, 14, 15, 16, 17, 18, 19] [])
       = [10, 11, 12, 13, 14, 15, 16, 17, 18, 19]
   \<and> unat (2 :: 32 word) = min (unat (100 :: 32 word)) (unat (10 :: 32 word) - unat (8 :: 32 word))"
proof -
  let ?w = "one_file 8 10 [10, 11, 12, 13, 14, 15, 16, 17, 18, 19] []"
  let ?w' = "?w\<lparr>crud_file_table :=
               [\<lparr> filename = ''a'', object_id = 1, position = 10, length_f = 10, open_f = 1 \<rparr>,
                empty_slot],
             issued := [(5100273824, 5100273824)], payloads := [[]]\<rparr>"
  have h: "crud_read store_env 0 (Some [0, 0, 0, 0]) 100 ?w = Inr (2, Some [18, 19, 0, 0], ?w')"
    by code_simp
  have a: "(2 :: 32 word) \<noteq> - 1" by simp
  have e: "position (crud_file_table ?w ! slot 0) = 8" "length_f (crud_file_table ?w ! slot 0) = 10"
    by code_simp+
  have c: "position (crud_file_table ?w ! slot 0) \<le> length_f (crud_file_table ?w ! slot 0)"
    unfolding e by simp
  have f: "fetched store_env 0 ?w = [10, 11, 12, 13, 14, 15, 16, 17, 18, 19]"
    by code_simp
  from C5_read_copies_min [OF h a c] h f show ?thesis
    unfolding e by simp
qed

section \<open>crud\_open on a full table\<close>

lemma search_name_absent:
  assumes "\<forall>e \<in> set tbl. filename e \<noteq> path" and "fh \<le> length tbl"
  shows "search_name tbl path fh = length tbl"
  using assms
proof (induction tbl path fh rule: search_name.induct)
  case (1 tbl path fh)
  show ?case
  proof (cases "fh < length tbl")
    case True
    then have "filename (tbl ! fh) \<noteq> path" using "1.prems"(1) by simp
    with True "1.IH" "1.prems" show ?thesis by (subst search_name.simps) simp
  next
    case False
    with "1.prems" show ?thesis by (subst search_name.simps) simp
  qed
qed

lemma search_empty_full:
  assumes "\<forall>e \<in> set tbl. filename e \<noteq> []"
  shows "search_empty tbl fh = Inl OutOfBounds"
  using assms
proof (induction tbl fh rule: search_empty.induct)
  case (1 tbl fh)
  show ?case
  proof (cases "length tbl \<le> fh")
    case True
    then show ?thesis by (subst search_empty.simps) simp
  next
    case False
    then have "filename (tbl ! fh) \<noteq> []" using "1.prems" by simp
    with False "1.IH" "1.prems" show ?thesis by (subst search_empty.simps) simp
  qed
qed

text \<open>
  Claim C3 (what the code does). When every slot of the table holds a non-empty name
  and none of them is \<open>path\<close>, \<open>crud_open\<close> does not return -1: the loop that looks for an
  empty slot runs off the end of the table and reads the slot after the last one.
\<close>

theorem C3_open_full_table_out_of_bounds:
  assumes "InitFlag w \<noteq> 0"
    and "\<forall>e \<in> set (crud_file_table w). filename e \<noteq> [] \<and> filename e \<noteq> path"
    and "0 < length path" and "length path \<le> CRUD_MAX_PATH_LENGTH env"
  shows "crud_open env path w = Inl OutOfBounds"
proof -
  have i: "crud_init env w = Inr (True, w)"
    using assms(1) by (simp add: crud_init_def)
  have n: "search_name (crud_file_table w) path 0 = length (crud_file_table w)"
    using assms(2) by (intro search_name_absent) simp_all
  have e: "search_empty (crud_file_table w) 0 = Inl OutOfBounds"
    using assms(2) by (intro search_empty_full) simp
  show ?thesis
    using i n e assms(3,4)
    by (simp add: crud_open_def Let_def CRUD_MAX_TOTAL_FILES_def)
qed

theorem C3_open_full_table_out_of_bounds_witness:
  "InitFlag full_world \<noteq> 0 \<and>
   list_all (\<lambda>e. filename e \<noteq> [] \<and> filename e \<noteq> ''c'') (crud_file_table full_world) \<and>
   0 < length ''c'' \<and> length ''c'' \<le> CRUD_MAX_PATH_LENGTH store_env \<and>
   crud_open store_env ''c'' full_world = Inl OutOfBounds"
proof -
  have a: "InitFlag full_world \<noteq> 0" by (simp add: full_world_def)
  have b: "\<forall>e \<in> set (crud_file_table full_world). filename e \<noteq> [] \<and> filename e \<noteq> ''c''"
    by (simp add: full_world_def)
  have c: "0 < length ''c''" "length ''c'' \<le> CRUD_MAX_PATH_LENGTH store_env"
    by (simp_all add: store_env_def)
  from C3_open_full_table_out_of_bounds [OF a b c] a b c show ?thesis
    by (simp add: list_all_iff)
qed

section \<open>Properties of the volume operations\<close>

lemma client_operation_got:
  assumes "crud_client_operation env op buf w = Inr (resp, got, w')"
    and "req (parse_CrudResponse resp) \<noteq> CRUD_READ"
  shows "got = []"
  using assms
  by (auto simp add: crud_client_operation_def crud_receive_def Let_def req_parse
      split: if_splits sum.splits prod.splits)

lemma load_table_nothing: "load_table env tbl [] = tbl"
  by (simp add: load_table_def)

lemma crud_format_cases:
  assumes run: "crud_format env w = Inr (r, w')"
  obtains
    (failed) "r = - 1" "crud_file_table w' = crud_file_table w"
      "\<forall>x \<in> set (issued_since w w').
         req (parse_CrudResponse (fst x)) \<noteq> CRUD_CREATE \<and>
         (req (parse_CrudResponse (fst x)) = CRUD_FORMAT \<longrightarrow> reports_failure x)"
  | (reset) new0 qf af qc ac got where
      "issued_since w w' = new0 @ [(qf, af), (qc, ac)]"
      "\<forall>x \<in> set new0. req (parse_CrudResponse (fst x)) = CRUD_INIT \<and> \<not> reports_failure x"
      "req (parse_CrudResponse qf) = CRUD_FORMAT" "\<not> reports_failure (qf, af)"
      "req (parse_CrudResponse qc) = CRUD_CREATE"
      "req (parse_CrudResponse ac) \<noteq> CRUD_READ \<longrightarrow> got = []"
      "crud_file_table w' = load_table env (map (\<lambda>e. empty_slot) (crud_file_table w)) got"
      "r = (if reports_failure (qc, ac) then - 1 else 0)"
      "InitFlag w' \<noteq> 0"
proof -
  from run obtain x where x: "crud_init env w = Inr x"
    unfolding crud_format_def sum_case_Inr_iff by blast
  obtain go w1 where xs: "x = (go, w1)" by (cases x)
  note i = x [unfolded xs]
  note ie = crud_init_effect [OF i]
  from ie(4,5) obtain new0 where
    n0: "issued w1 = issued w @ new0" "go \<longrightarrow> \<not> list_ex reports_failure new0"
      "\<forall>x \<in> set new0. fst x = convert_to_CrudRequest 0 CRUD_INIT 0 0 0"
    by auto
  have n0i: "\<forall>x \<in> set new0. req (parse_CrudResponse (fst x)) = CRUD_INIT"
    using n0(3) by (simp add: request_type_of_convert)
  show thesis
  proof (cases go)
    case False
    with run i have "r = - 1" "w' = w1"
      by (auto simp add: crud_format_def)
    with ie(1) n0(1) n0i request_types_distinct show thesis
      by (intro failed) (auto simp add: issued_since_def)
  next
    case go: True
    let ?qf = "convert_to_CrudRequest 0 CRUD_FORMAT 0 CRUD_NULL_FLAG 0"
    from run i go obtain y where y: "crud_client_operation env ?qf None w1 = Inr y"
      by (auto simp add: crud_format_def sum_case_Inr_iff)
    obtain af g2 w2 where ys: "y = (af, g2, w2)" by (cases y)
    note f = y [unfolded ys]
    note fe = exchange [OF f request_types_not_init(1)]
    show thesis
    proof (cases "res (parse_CrudResponse af) = 1")
      case True
      with run i go f have "r = - 1" "w' = w2"
        by (auto simp add: crud_format_def)
      moreover have "issued_since w w2 = new0 @ [(?qf, af)]"
        using fe(1) n0(1) by (simp add: issued_since_def)
      ultimately show thesis
        using fe(2) ie(1) n0i request_types_distinct True
        by (intro failed)
          (auto simp add: request_type_of_convert reports_failure_def)
    next
      case fok: False
      let ?t = "map (\<lambda>e. empty_slot) (crud_file_table w)"
      let ?w3 = "w2\<lparr>crud_file_table := ?t\<rparr>"
      let ?qc = "convert_to_CrudRequest 0 CRUD_CREATE (of_nat (length (table_bytes env ?t)))
                   CRUD_PRIORITY_OBJECT 0"
      have t2: "crud_file_table w2 = crud_file_table w" using fe(2) ie(1) by simp
      from run i go f fok t2 obtain z where
        z: "crud_client_operation env ?qc (Some (table_bytes env ?t)) ?w3 = Inr z"
        by (auto simp add: crud_format_def Let_def sum_case_Inr_iff)
      obtain ac got w4 where zs: "z = (ac, got, w4)" by (cases z)
      note c = z [unfolded zs]
      note ce = exchange [OF c request_types_not_init(2)]
      from run i go f fok t2 c have res:
        "r = (if res (parse_CrudResponse ac) = 1 then - 1 else 0)"
        "w' = w4\<lparr>crud_file_table := load_table env (crud_file_table w4) got\<rparr>"
        by (auto simp add: crud_format_def Let_def split: if_splits)
      have iss: "issued_since w w' = new0 @ [(?qf, af), (?qc, ac)]"
        using res(2) ce(1) fe(1) n0(1) by (simp add: issued_since_def)
      have fl: "InitFlag w' \<noteq> 0"
        using res(2) ce(3) fe(3) ie(2) [OF go] by simp
      have tb: "crud_file_table w' = load_table env ?t got"
        using res(2) ce(2) by simp
      have n0f: "\<forall>x \<in> set new0. req (parse_CrudResponse (fst x)) = CRUD_INIT \<and> \<not> reports_failure x"
        using n0i n0(2) go by (simp add: list_ex_iff)
      show thesis
        using iss n0f fok client_operation_got [OF c] tb res(1) fl
        by (intro reset [of new0 ?qf af ?qc ac got])
          (simp_all add: request_type_of_convert reports_failure_def)
    qed
  qed
qed

text \<open>
  Claim C6, as amended. \<open>crud_format\<close> returns an error (-1) whenever a response received
  during the call (INIT, FORMAT or CREATE) reports failure. If no FORMAT request got a
  successful response (INIT or FORMAT failed), the table is unchanged. If the CREATE of
  the directory object reports failure (and its response carries no payload), the error
  is returned with the table already reset to all-empty slots.
\<close>

theorem C6_format_failure:
  assumes "crud_format env w = Inr (r, w')"
  shows "(list_ex reports_failure (issued_since w w') \<longrightarrow> r = - 1) \<and>
         ((\<forall>x \<in> set (issued_since w w').
             req (parse_CrudResponse (fst x)) = CRUD_FORMAT \<longrightarrow> reports_failure x)
            \<longrightarrow> crud_file_table w' = crud_file_table w) \<and>
         (\<forall>q a. (q, a) \<in> set (issued_since w w') \<and> req (parse_CrudResponse q) = CRUD_CREATE \<and>
                reports_failure (q, a) \<and> req (parse_CrudResponse a) \<noteq> CRUD_READ
            \<longrightarrow> r = - 1 \<and> crud_file_table w' = map (\<lambda>e. empty_slot) (crud_file_table w))"
  using assms
proof (cases rule: crud_format_cases)
  case failed
  then show ?thesis by auto
next
  case (reset new0 qf af qc ac got)
  have a: "list_ex reports_failure (issued_since w w') \<longrightarrow> r = - 1"
    using reset(1,2,4,8) by (auto simp add: list_ex_iff)
  have b: "\<not> (\<forall>x \<in> set (issued_since w w').
             req (parse_CrudResponse (fst x)) = CRUD_FORMAT \<longrightarrow> reports_failure x)"
    using reset(1,3,4) by auto
  have c: "r = - 1 \<and> crud_file_table w' = map (\<lambda>e. empty_slot) (crud_file_table w)"
    if "(q, a) \<in> set (issued_since w w')" "req (parse_CrudResponse q) = CRUD_CREATE"
      "reports_failure (q, a)" "req (parse_CrudResponse a) \<noteq> CRUD_READ" for q a
  proof -
    from that(1,2) reset(1,2,3) request_types_distinct have "(q, a) = (qc, ac)"
      by auto
    with that(3,4) reset(6,7,8) show ?thesis
      by (simp add: load_table_nothing)
  qed
  from a b c show ?thesis by blast
qed

theorem C6_format_failure_witness:
  "crud_format store_env (one_file 0 3 [7, 8, 9] [CRUD_CREATE]) =
     Inr (- 1,
          (one_file 0 3 [7, 8, 9] [CRUD_CREATE])
            \<lparr>crud_file_table := [empty_slot, empty_slot],
             remote := \<lparr> next_oid = 2, objects = [], refused = [CRUD_CREATE] \<rparr>,
             issued := [(268435456, 268435456), (536870946, 536870915)], payloads := [[], [0, 0]]\<rparr>)
   \<and> req (parse_CrudResponse 536870946) = CRUD_CREATE
   \<and> reports_failure (536870946, 536870915)
   \<and> req (parse_CrudResponse 536870915) \<noteq> CRUD_READ"
proof -
  let ?w = "one_file 0 3 [7, 8, 9] [CRUD_CREATE]"
  let ?w' = "?w\<lparr>crud_file_table := [empty_slot, empty_slot],
             remote := \<lparr> next_oid = 2, objects = [], refused = [CRUD_CREATE] \<rparr>,
             issued := [(268435456, 268435456), (536870946, 536870915)], payloads := [[], [0, 0]]\<rparr>"
  have h: "crud_format store_env ?w = Inr (- 1, ?w')"
    by code_simp
  have i: "(536870946, 536870915) \<in> set (issued_since ?w ?w')"
    by code_simp
  have p: "req (parse_CrudResponse 536870946) = CRUD_CREATE"
    "reports_failure (536870946, 536870915)"
    "req (parse_CrudResponse 536870915) \<noteq> CRUD_READ"
    by code_simp+
  from C6_format_failure [OF h] i p h show ?thesis
    by simp
qed

text \<open>
  The claim as stated fails: FORMAT succeeds, the CREATE of the directory object is
  refused, \<open>crud_format\<close> returns -1 (65535 as a \<open>uint16_t\<close>), and the table, which held
  the file \<open>a\<close>, is left reset to empty slots.
\<close>

theorem C6_counterexample:
  "crud_format store_env (one_file 1 5 [1, 2, 3, 4, 5] [CRUD_CREATE]) =
     Inr (65535,
          (one_file 1 5 [1, 2, 3, 4, 5] [CRUD_CREATE])
            \<lparr>crud_file_table := [empty_slot, empty_slot],
             remote := \<lparr> next_oid = 2, objects = [], refused = [CRUD_CREATE] \<rparr>,
             issued := [(268435456, 268435456), (536870946, 536870915)], payloads := [[], [0, 0]]\<rparr>)
   \<and> req (parse_CrudResponse 268435456) = CRUD_FORMAT
   \<and> res (parse_CrudResponse 268435456) = 0
   \<and> req (parse_CrudResponse 536870946) = CRUD_CREATE
   \<and> res (parse_CrudResponse 536870915) = 1
   \<and> crud_file_table (one_file 1 5 [1, 2, 3, 4, 5] [CRUD_CREATE]) =
       [\<lparr> filename = ''a'', object_id = 1, position = 1, length_f = 5, open_f = 1 \<rparr>,
        \<lparr> filename = [], object_id = 0, position = 0, length_f = 0, open_f = 0 \<rparr>]
   \<and> [empty_slot, empty_slot] \<noteq> crud_file_table (one_file 1 5 [1, 2, 3, 4, 5] [CRUD_CREATE])"
  by code_simp

lemma crud_mount_effect:
  assumes "crud_mount env w = Inr (r, w')"
  shows "(r = - 1 \<and> crud_file_table w' = crud_file_table w) \<or>
         (InitFlag w' \<noteq> 0 \<and> (\<exists>got. crud_file_table w' = load_table env (crud_file_table w) got))"
proof -
  from assms obtain x where x: "crud_init env w = Inr x"
    unfolding crud_mount_def sum_case_Inr_iff by blast
  obtain go w1 where xs: "x = (go, w1)" by (cases x)
  note i = x [unfolded xs]
  note ie = crud_init_effect [OF i]
  show ?thesis
  proof (cases go)
    case False
    with assms i have "r = - 1" "w' = w1" by (auto simp add: crud_mount_def)
    with ie(1) show ?thesis by simp
  next
    case go: True
    let ?q = "convert_to_CrudRequest 0 CRUD_READ
                (of_nat (length (table_bytes env (crud_file_table w)))) CRUD_PRIORITY_OBJECT 0"
    from assms i go ie(1) obtain y where
      y: "crud_client_operation env ?q (Some (table_bytes env (crud_file_table w))) w1 = Inr y"
      by (auto simp add: crud_mount_def Let_def sum_case_Inr_iff)
    obtain a got w2 where ys: "y = (a, got, w2)" by (cases y)
    note c = y [unfolded ys]
    note ce = exchange [OF c request_types_not_init(3)]
    from assms i go ie(1) c have
      "w' = w2\<lparr>crud_file_table := load_table env (crud_file_table w2) got\<rparr>"
      by (auto simp add: crud_mount_def Let_def split: if_splits)
    with ce(2,3) ie(1) ie(2) [OF go] show ?thesis by auto
  qed
qed

lemma crud_unmount_not_initialised:
  "InitFlag w = 0 \<Longrightarrow> crud_unmount env w = Inr (- 1, w)"
  by (simp add: crud_unmount_def)

lemma crud_unmount_effect:
  assumes "crud_unmount env w = Inr (r, w')" and "InitFlag w \<noteq> 0"
  shows "InitFlag w' \<noteq> 0"
    and "\<exists>got. crud_file_table w' = load_table env (crud_file_table w) got"
    and "\<exists>a rest. issued_since w w' =
           (convert_to_CrudRequest 0 CRUD_UPDATE
              (of_nat (length (table_bytes env (crud_file_table w)))) CRUD_PRIORITY_OBJECT 0, a)
           # rest"
proof -
  let ?q = "convert_to_CrudRequest 0 CRUD_UPDATE
              (of_nat (length (table_bytes env (crud_file_table w)))) CRUD_PRIORITY_OBJECT 0"
  from assms obtain y where
    y: "crud_client_operation env ?q (Some (table_bytes env (crud_file_table w))) w = Inr y"
    by (auto simp add: crud_unmount_def Let_def sum_case_Inr_iff)
  obtain a got w1 where ys: "y = (a, got, w1)" by (cases y)
  note c = y [unfolded ys]
  note ce = exchange [OF c request_types_not_init(4)]
  let ?w2 = "w1\<lparr>crud_file_table := load_table env (crud_file_table w1) got\<rparr>"
  have all: "InitFlag w' \<noteq> 0 \<and>
      crud_file_table w' = load_table env (crud_file_table w) got \<and>
      (\<exists>rest. issued_since w w' = (?q, a) # rest)"
  proof (cases "res (parse_CrudResponse a) = 1")
    case True
    with assms c have "w' = ?w2" by (auto simp add: crud_unmount_def Let_def)
    with ce assms(2) show ?thesis by (simp add: issued_since_def)
  next
    case False
    with assms c obtain z where
      z: "crud_client_operation env (convert_to_CrudRequest 0 CRUD_CLOSE 0 CRUD_NULL_FLAG 0)
            None ?w2 = Inr z"
      by (auto simp add: crud_unmount_def Let_def sum_case_Inr_iff)
    obtain a2 g2 w3 where zs: "z = (a2, g2, w3)" by (cases z)
    note d = z [unfolded zs]
    note de = exchange [OF d request_types_not_init(6)]
    from assms c d False have "w' = w3"
      by (auto simp add: crud_unmount_def Let_def split: if_splits)
    with ce de assms(2) show ?thesis by (simp add: issued_since_def)
  qed
  from all show "InitFlag w' \<noteq> 0" by simp
  from all show "\<exists>got. crud_file_table w' = load_table env (crud_file_table w) got" by blast
  from all show "\<exists>a rest. issued_since w w' = (?q, a) # rest" by blast
qed

section \<open>Properties of open, close and seek\<close>

lemma table_inv_update:
  "table_inv tbl \<Longrightarrow> position e \<le> length_f e \<Longrightarrow> table_inv (tbl[i := e])"
  by (auto simp add: table_inv_def list_all_iff dest!: set_update_subset_insert [THEN subsetD])

lemma table_inv_nth:
  "table_inv tbl \<Longrightarrow> i < length tbl \<Longrightarrow> position (tbl ! i) \<le> length_f (tbl ! i)"
  by (simp add: table_inv_def list_all_length)

lemma table_inv_empty: "table_inv (map (\<lambda>e. empty_slot) tbl)"
  by (simp add: table_inv_def list_all_iff empty_slot_def)

lemma crud_open_effect:
  assumes "crud_open env path w = Inr (r, w')"
  shows "r \<noteq> - 1 \<Longrightarrow> InitFlag w' \<noteq> 0"
    and "table_inv (crud_file_table w) \<Longrightarrow> table_inv (crud_file_table w')"
proof -
  from assms obtain x where x: "crud_init env w = Inr x"
    unfolding crud_open_def sum_case_Inr_iff by blast
  obtain go w1 where xs: "x = (go, w1)" by (cases x)
  note i = x [unfolded xs]
  note ie = crud_init_effect [OF i]
  show "r \<noteq> - 1 \<Longrightarrow> InitFlag w' \<noteq> 0"
    using assms i ie(2)
    by (auto simp add: crud_open_def Let_def split: if_splits sum.splits bool.splits)
  show "table_inv (crud_file_table w) \<Longrightarrow> table_inv (crud_file_table w')"
    using assms i ie(1)
    by (auto simp add: crud_open_def Let_def split: if_splits sum.splits bool.splits
        intro!: table_inv_update)
qed

lemma crud_close_effect:
  assumes "crud_close env fh w = Inr (r, w')"
  shows "r \<noteq> - 1 \<Longrightarrow> InitFlag w' \<noteq> 0"
    and "table_inv (crud_file_table w) \<Longrightarrow> table_inv (crud_file_table w')"
proof -
  from assms obtain x where x: "crud_init env w = Inr x"
    unfolding crud_close_def sum_case_Inr_iff by blast
  obtain go w1 where xs: "x = (go, w1)" by (cases x)
  note i = x [unfolded xs]
  note ie = crud_init_effect [OF i]
  show "r \<noteq> - 1 \<Longrightarrow> InitFlag w' \<noteq> 0"
    using assms i ie(2)
    by (auto simp add: crud_close_def split: if_splits bool.splits)
  have st: "w' = w1 \<or>
      (\<not> bad_handle w1 fh \<and>
       w' = w1\<lparr>crud_file_table := (crud_file_table w1)[slot fh :=
              (crud_file_table w1 ! slot fh)\<lparr>open_f := 0\<rparr>]\<rparr>)"
    using assms i by (auto simp add: crud_close_def split: if_splits bool.splits)
  show "table_inv (crud_file_table w')" if inv: "table_inv (crud_file_table w)"
  proof -
    from st show ?thesis
    proof
      assume "w' = w1"
      with ie(1) inv show ?thesis by simp
    next
      assume a: "\<not> bad_handle w1 fh \<and>
       w' = w1\<lparr>crud_file_table := (crud_file_table w1)[slot fh :=
              (crud_file_table w1 ! slot fh)\<lparr>open_f := 0\<rparr>]\<rparr>"
      then have "slot fh < length (crud_file_table w1)" by (simp add: slot_in_table)
      with inv ie(1) have "position (crud_file_table w1 ! slot fh)
          \<le> length_f (crud_file_table w1 ! slot fh)"
        by (simp add: table_inv_nth)
      with a inv ie(1) show ?thesis by (simp add: table_inv_update)
    qed
  qed
qed

lemma crud_seek_effect:
  assumes "crud_seek env fd loc w = Inr (r, w')"
  shows "r \<noteq> - 1 \<Longrightarrow> InitFlag w' \<noteq> 0"
    and "table_inv (crud_file_table w) \<Longrightarrow> table_inv (crud_file_table w')"
proof -
  from assms obtain x where x: "crud_init env w = Inr x"
    unfolding crud_seek_def sum_case_Inr_iff by blast
  obtain go w1 where xs: "x = (go, w1)" by (cases x)
  note i = x [unfolded xs]
  note ie = crud_init_effect [OF i]
  show "r \<noteq> - 1 \<Longrightarrow> InitFlag w' \<noteq> 0"
    using assms i ie(2)
    by (auto simp add: crud_seek_def split: if_splits bool.splits)
  show "table_inv (crud_file_table w) \<Longrightarrow> table_inv (crud_file_table w')"
    using assms i ie(1)
    by (auto simp add: crud_seek_def split: if_splits bool.splits
        intro!: table_inv_update)
qed

section \<open>Properties of sequences of calls\<close>

lemma map_sum_Inr_iff: "map_sum id f m = Inr y \<longleftrightarrow> (\<exists>x. m = Inr x \<and> y = f x)"
  by (cases m) auto

text \<open>Every public operation that succeeds leaves \<open>InitFlag\<close> set.\<close>

lemma run_success_initialised:
  assumes "run env c w = Inr (True, w')"
  shows "InitFlag w' \<noteq> 0"
proof (cases c)
  case Format
  with assms obtain r where r: "crud_format env w = Inr (r, w')" "r \<noteq> - 1"
    by (auto simp add: map_sum_Inr_iff)
  from r(1) show ?thesis
    by (cases rule: crud_format_cases) (use r(2) in simp_all)
next
  case Mount
  with assms obtain r where r: "crud_mount env w = Inr (r, w')" "r \<noteq> - 1"
    by (auto simp add: map_sum_Inr_iff)
  with crud_mount_effect [OF r(1)] show ?thesis by auto
next
  case Unmount
  with assms obtain r where r: "crud_unmount env w = Inr (r, w')" "r \<noteq> - 1"
    by (auto simp add: map_sum_Inr_iff)
  show ?thesis
  proof (cases "InitFlag w = 0")
    case True
    with r crud_unmount_not_initialised [of w env] show ?thesis by simp
  next
    case False
    with crud_unmount_effect(1) [OF r(1)] show ?thesis by simp
  qed
next
  case (Open path)
  with assms obtain r where r: "crud_open env path w = Inr (r, w')" "r \<noteq> - 1"
    by (auto simp add: map_sum_Inr_iff)
  with crud_open_effect(1) [OF r(1)] show ?thesis by simp
next
  case (Close fh)
  with assms obtain r where r: "crud_close env fh w = Inr (r, w')" "r \<noteq> - 1"
    by (auto simp add: map_sum_Inr_iff)
  with crud_close_effect(1) [OF r(1)] show ?thesis by simp
next
  case (Read fd buf count)
  with assms obtain r b' where r: "crud_read env fd buf count w = Inr (r, b', w')" "r \<noteq> - 1"
    by (auto simp add: map_sum_Inr_iff)
  from r(1) show ?thesis
    by (cases rule: crud_read_cases) (use r(2) in simp_all)
next
  case (Write fd buf count)
  with assms obtain r b' where r: "crud_write env fd buf count w = Inr (r, b', w')" "r \<noteq> - 1"
    by (auto simp add: map_sum_Inr_iff)
  from r(1) show ?thesis
    by (cases rule: crud_write_cases) (use r(2) in simp_all)
next
  case (Seek fd loc)
  with assms obtain r where r: "crud_seek env fd loc w = Inr (r, w')" "r \<noteq> - 1"
    by (auto simp add: map_sum_Inr_iff)
  with crud_seek_effect(1) [OF r(1)] show ?thesis by simp
qed

text \<open>
  Claim C7, as amended. \<open>crud_unmount\<close> returns -1 without issuing any request exactly
  when \<open>InitFlag\<close> is 0, that is when no operation of the process has completed CRUD\_INIT
  yet. Once \<open>InitFlag\<close> is set the test is passed and the UPDATE of the directory object
  is issued; and every public operation that succeeds (an open, read, write or seek
  that connected lazily as much as a mount or a format) leaves \<open>InitFlag\<close> set.
\<close>

theorem C7_unmount_checks_init_only:
  "(InitFlag w = 0 \<longrightarrow> crud_unmount env w = Inr (- 1, w)) \<and>
   (InitFlag w \<noteq> 0 \<longrightarrow> crud_unmount env w = Inr (r, w') \<longrightarrow>
      (\<exists>a rest. issued_since w w' =
         (convert_to_CrudRequest 0 CRUD_UPDATE
            (of_nat (length (table_bytes env (crud_file_table w)))) CRUD_PRIORITY_OBJECT 0, a)
         # rest)) \<and>
   (run env c w0 = Inr (True, w) \<longrightarrow> InitFlag w \<noteq> 0)"
  using crud_unmount_not_initialised [of w env] crud_unmount_effect(3) [of env w r w']
    run_success_initialised [of env c w0 w]
  by blast

theorem C7_unmount_checks_init_only_witness:
  "run store_env (Seek 0 1) (one_file 0 3 [7, 8, 9] []\<lparr>InitFlag := 0, connected := False\<rparr>) =
     Inr (True, one_file 1 3 [7, 8, 9] []\<lparr>issued := [(0, 0)], payloads := [[]]\<rparr>)
   \<and> InitFlag (one_file 1 3 [7, 8, 9] []\<lparr>issued := [(0, 0)], payloads := [[]]\<rparr>) \<noteq> 0
   \<and> crud_unmount store_env (one_file 1 3 [7, 8, 9] []\<lparr>issued := [(0, 0)], payloads := [[]]\<rparr>) =
       Inr (- 1, one_file 1 3 [7, 8, 9] []\<lparr>issued := [(0, 0), (1073741858, 1073741827)], payloads := [[], [1, 0]]\<rparr>)
   \<and> convert_to_CrudRequest 0 CRUD_UPDATE
         (of_nat (length (table_bytes store_env (crud_file_table (one_file 1 3 [7, 8, 9] []))))) 
         CRUD_PRIORITY_OBJECT 0 = 1073741858
   \<and> InitFlag restarted_client = 0
   \<and> crud_unmount store_env restarted_client = Inr (- 1, restarted_client)"
proof -
  let ?start = "one_file 0 3 [7, 8, 9] []\<lparr>InitFlag := 0, connected := False\<rparr>"
  let ?w = "one_file 1 3 [7, 8, 9] []\<lparr>issued := [(0, 0)], payloads := [[]]\<rparr>"
  let ?w' = "one_file 1 3 [7, 8, 9] []\<lparr>issued := [(0, 0), (1073741858, 1073741827)], payloads := [[], [1, 0]]\<rparr>"
  have a: "run store_env (Seek 0 1) ?start = Inr (True, ?w)"
    by code_simp
  have b: "crud_unmount store_env ?w = Inr (- 1, ?w')"
    by code_simp
  have c: "convert_to_CrudRequest 0 CRUD_UPDATE
         (of_nat (length (table_bytes store_env (crud_file_table (one_file 1 3 [7, 8, 9] []))))) 
         CRUD_PRIORITY_OBJECT 0 = 1073741858"
    by code_simp
  have d: "InitFlag ?w \<noteq> 0"
    using C7_unmount_checks_init_only [of ?w store_env "- 1" ?w' "Seek 0 1" ?start] a by blast
  have e: "InitFlag restarted_client = 0"
    by (simp add: restarted_client_def)
  have f: "crud_unmount store_env restarted_client = Inr (- 1, restarted_client)"
    using C7_unmount_checks_init_only [of restarted_client store_env] e by blast
  from a b c d e f show ?thesis by blast
qed

text \<open>
  The claim as stated fails: a client that has neither mounted nor formatted opens a
  file, which connects lazily; \<open>crud_unmount\<close> then passes its test, issues UPDATE and
  CLOSE, and returns 0. The requests of the session are INIT, UPDATE and CLOSE.
\<close>

theorem C7_counterexample:
  "crud_open store_env ''a'' restarted_client =
     Inr (0, restarted_client
               \<lparr>InitFlag := 1,
                crud_file_table :=
                  [\<lparr> filename = ''a'', object_id = 0, position = 0, length_f = 0, open_f = 1 \<rparr>,
                   empty_slot],
                connected := True,
                issued := [(0, 0)], payloads := [[]]\<rparr>)
   \<and> crud_unmount store_env
        (restarted_client
               \<lparr>InitFlag := 1,
                crud_file_table :=
                  [\<lparr> filename = ''a'', object_id = 0, position = 0, length_f = 0, open_f = 1 \<rparr>,
                   empty_slot],
                connected := True,
                issued := [(0, 0)], payloads := [[]]\<rparr>) =
     Inr (0, restarted_client
               \<lparr>InitFlag := 1,
                crud_file_table :=
                  [\<lparr> filename = ''a'', object_id = 0, position = 0, length_f = 0, open_f = 1 \<rparr>,
                   empty_slot],
                connected := False,
                remote := \<lparr> next_oid = 5, objects = [(0, [1, 0]), (0, [0, 0])], refused = [] \<rparr>,
                issued := [(0, 0), (1073741858, 1073741858), (1610612736, 1610612736)], payloads := [[], [1, 0], []]\<rparr>)
   \<and> req (parse_CrudResponse 0) = CRUD_INIT
   \<and> req (parse_CrudResponse 1073741858) = CRUD_UPDATE
   \<and> req (parse_CrudResponse 1610612736) = CRUD_CLOSE"
  by code_simp


section \<open>The relation between position and length\<close>

text \<open>
  \<open>crud_mount\<close> and \<open>crud_unmount\<close> leave the table as it was when no response received
  during the call is of type READ: nothing is stored into the table then.
\<close>

lemma crud_mount_table:
  assumes "crud_mount env w = Inr (r, w')"
    and "\<not> list_ex carries_payload (issued_since w w')"
  shows "crud_file_table w' = crud_file_table w"
proof -
  from assms(1) obtain x where x: "crud_init env w = Inr x"
    unfolding crud_mount_def sum_case_Inr_iff by blast
  obtain go w1 where xs: "x = (go, w1)" by (cases x)
  note i = x [unfolded xs]
  note ie = crud_init_effect [OF i]
  show ?thesis
  proof (cases go)
    case False
    with assms(1) i have "w' = w1" by (auto simp add: crud_mount_def)
    with ie(1) show ?thesis by simp
  next
    case go: True
    let ?q = "convert_to_CrudRequest 0 CRUD_READ
                (of_nat (length (table_bytes env (crud_file_table w)))) CRUD_PRIORITY_OBJECT 0"
    from assms(1) i go ie(1) obtain y where
      y: "crud_client_operation env ?q (Some (table_bytes env (crud_file_table w))) w1 = Inr y"
      by (auto simp add: crud_mount_def Let_def sum_case_Inr_iff)
    obtain a got w2 where ys: "y = (a, got, w2)" by (cases y)
    note c = y [unfolded ys]
    note ce = exchange [OF c request_types_not_init(3)]
    from assms(1) i go ie(1) c have
      w': "w' = w2\<lparr>crud_file_table := load_table env (crud_file_table w2) got\<rparr>"
      by (auto simp add: crud_mount_def Let_def split: if_splits)
    from ie(4) obtain new where new: "issued w1 = issued w @ new" by blast
    have "issued_since w w' = new @ [(?q, a)]"
      using w' ce(1) new by (simp add: issued_since_def)
    with assms(2) have "req (parse_CrudResponse a) \<noteq> CRUD_READ"
      by (simp add: carries_payload_def)
    from client_operation_got [OF c this] have "got = []" .
    with w' ce(2) ie(1) show ?thesis by (simp add: load_table_nothing)
  qed
qed

lemma crud_unmount_table:
  assumes "crud_unmount env w = Inr (r, w')"
    and "\<not> list_ex carries_payload (issued_since w w')"
  shows "crud_file_table w' = crud_file_table w"
proof (cases "InitFlag w = 0")
  case True
  with assms(1) crud_unmount_not_initialised [of w env] show ?thesis by simp
next
  case init: False
  let ?q = "convert_to_CrudRequest 0 CRUD_UPDATE
              (of_nat (length (table_bytes env (crud_file_table w)))) CRUD_PRIORITY_OBJECT 0"
  from assms(1) init obtain y where
    y: "crud_client_operation env ?q (Some (table_bytes env (crud_file_table w))) w = Inr y"
    by (auto simp add: crud_unmount_def Let_def sum_case_Inr_iff)
  obtain a got w1 where ys: "y = (a, got, w1)" by (cases y)
  note c = y [unfolded ys]
  note ce = exchange [OF c request_types_not_init(4)]
  let ?w2 = "w1\<lparr>crud_file_table := load_table env (crud_file_table w1) got\<rparr>"
  have both: "crud_file_table w' = load_table env (crud_file_table w) got \<and>
      (\<exists>rest. issued_since w w' = (?q, a) # rest)"
  proof (cases "res (parse_CrudResponse a) = 1")
    case True
    with assms(1) c init have "w' = ?w2" by (auto simp add: crud_unmount_def Let_def)
    with ce show ?thesis by (simp add: issued_since_def)
  next
    case False
    with assms(1) c init obtain z where
      z: "crud_client_operation env (convert_to_CrudRequest 0 CRUD_CLOSE 0 CRUD_NULL_FLAG 0)
            None ?w2 = Inr z"
      by (auto simp add: crud_unmount_def Let_def sum_case_Inr_iff)
    obtain a2 g2 w3 where zs: "z = (a2, g2, w3)" by (cases z)
    note d = z [unfolded zs]
    note de = exchange [OF d request_types_not_init(6)]
    from assms(1) c d False init have "w' = w3"
      by (auto simp add: crud_unmount_def Let_def split: if_splits)
    with ce de show ?thesis by (simp add: issued_since_def)
  qed
  with assms(2) have "req (parse_CrudResponse a) \<noteq> CRUD_READ"
    by (auto simp add: carries_payload_def)
  from client_operation_got [OF c this] have "got = []" .
  with both show ?thesis by (simp add: load_table_nothing)
qed

text \<open>
  Claim C10, as amended. If every slot of the table has \<open>position \<le> length\<close> (both are
  unsigned, so \<open>0 \<le> position\<close> always holds), then so it is after every call of open,
  close, read, write and seek that returns, successful or not, whatever the store
  answers: open sets the position to 0, seek accepts only targets up to the length, read
  advances the position at most to the length, and a write that moves the position past
  the old length sets the length to the new position. The same holds for a call of
  format, mount or unmount in which no response received is of type READ; a response of
  type READ is the one after which bytes sent by the store are stored over the table.
\<close>

theorem C10_position_within_length:
  assumes "table_inv (crud_file_table w)"
    and "run env c w = Inr (ok, w')"
    and "volume_call c \<longrightarrow> \<not> list_ex carries_payload (issued_since w w')"
  shows "table_inv (crud_file_table w')"
proof (cases c)
  case Format
  with assms(2) obtain r where r: "crud_format env w = Inr (r, w')"
    by (auto simp add: map_sum_Inr_iff)
  have quiet: "\<not> list_ex carries_payload (issued_since w w')"
    using assms(3) Format by simp
  from r show ?thesis
  proof (cases rule: crud_format_cases)
    case failed
    with assms(1) show ?thesis by simp
  next
    case (reset new0 qf af qc ac got)
    from quiet reset(1) have "req (parse_CrudResponse ac) \<noteq> CRUD_READ"
      by (simp add: carries_payload_def)
    with reset(6) have "got = []" by simp
    with reset(7) show ?thesis by (simp add: load_table_nothing table_inv_empty)
  qed
next
  case Mount
  with assms(2) obtain r where r: "crud_mount env w = Inr (r, w')"
    by (auto simp add: map_sum_Inr_iff)
  have "\<not> list_ex carries_payload (issued_since w w')"
    using assms(3) Mount by simp
  from crud_mount_table [OF r this] assms(1) show ?thesis by simp
next
  case Unmount
  with assms(2) obtain r where r: "crud_unmount env w = Inr (r, w')"
    by (auto simp add: map_sum_Inr_iff)
  have "\<not> list_ex carries_payload (issued_since w w')"
    using assms(3) Unmount by simp
  from crud_unmount_table [OF r this] assms(1) show ?thesis by simp
next
  case (Open path)
  with assms(2) obtain r where r: "crud_open env path w = Inr (r, w')"
    by (auto simp add: map_sum_Inr_iff)
  with crud_open_effect(2) [OF r] assms(1) show ?thesis by simp
next
  case (Close fh)
  with assms(2) obtain r where r: "crud_close env fh w = Inr (r, w')"
    by (auto simp add: map_sum_Inr_iff)
  with crud_close_effect(2) [OF r] assms(1) show ?thesis by simp
next
  case (Read fd buf count)
  with assms(2) obtain r b' where r: "crud_read env fd buf count w = Inr (r, b', w')"
    by (auto simp add: map_sum_Inr_iff)
  from r show ?thesis
  proof (cases rule: crud_read_cases)
    case failed
    with assms(1) show ?thesis by simp
  next
    case (copied b)
    let ?e = "crud_file_table w ! slot fd"
    have le: "position ?e \<le> length_f ?e"
      using assms(1) slot_in_table [OF copied(3)] by (rule table_inv_nth)
    show ?thesis
    proof (cases "count > length_f ?e - position ?e")
      case True
      with copied(8) assms(1) show ?thesis by (simp add: table_inv_update)
    next
      case False
      then have "unat (position ?e) + unat count \<le> unat (length_f ?e)"
        using le by (simp add: word_le_nat_alt word_less_nat_alt unat_sub)
      from no_wrap_le(1) [OF this] False copied(8) assms(1) show ?thesis
        by (simp add: table_inv_update)
    qed
  qed
next
  case (Write fd buf count)
  with assms(2) obtain r b' where r: "crud_write env fd buf count w = Inr (r, b', w')"
    by (auto simp add: map_sum_Inr_iff)
  from r show ?thesis
  proof (cases rule: crud_write_cases)
    case failed
    with assms(1) show ?thesis by simp
  next
    case (created a)
    with assms(1) show ?thesis by (simp add: table_inv_update)
  next
    case (grown a)
    with assms(1) show ?thesis by (simp add: table_inv_update)
  next
    case (updated a b0)
    with assms(1) show ?thesis by (simp add: table_inv_update)
  qed
next
  case (Seek fd loc)
  with assms(2) obtain r where r: "crud_seek env fd loc w = Inr (r, w')"
    by (auto simp add: map_sum_Inr_iff)
  with crud_seek_effect(2) [OF r] assms(1) show ?thesis by simp
qed

theorem C10_position_within_length_witness:
  "table_inv (crud_file_table (one_file 2 2 [7, 8] [])) \<and>
   run store_env (Write 0 (Some [9]) 1) (one_file 2 2 [7, 8] []) =
     Inr (True,
          (one_file 2 2 [7, 8] [])
            \<lparr>crud_file_table :=
               [\<lparr> filename = ''a'', object_id = 2, position = 3, length_f = 3, open_f = 1 \<rparr>,
                empty_slot],
             remote := \<lparr> next_oid = 3, objects = [(2, [7, 8, 9])], refused = [] \<rparr>,
             issued := [(5100273696, 5100273696), (536870960, 9126805552),
                        (5637144576, 5637144576)],
             payloads := [[], [7, 8, 9], []]\<rparr>) \<and>
   table_inv
     [\<lparr> filename = ''a'', object_id = 2, position = 3, length_f = 3, open_f = 1 \<rparr>, empty_slot] \<and>
   table_inv (crud_file_table (one_file 1 3 [7, 8, 9] [])) \<and>
   run store_env Format (one_file 1 3 [7, 8, 9] []) =
     Inr (True,
          (one_file 1 3 [7, 8, 9] [])
            \<lparr>crud_file_table := [empty_slot, empty_slot],
             remote := \<lparr> next_oid = 2, objects = [(0, [0, 0])], refused = [] \<rparr>,
             issued := [(268435456, 268435456), (536870946, 536870946)],
             payloads := [[], [0, 0]]\<rparr>) \<and>
   volume_call Format \<and>
   \<not> list_ex carries_payload [(268435456, 268435456), (536870946, 536870946)] \<and>
   table_inv [empty_slot, empty_slot]"
proof -
  let ?w = "one_file 2 2 [7, 8] []"
  let ?w' = "?w\<lparr>crud_file_table :=
               [\<lparr> filename = ''a'', object_id = 2, position = 3, length_f = 3, open_f = 1 \<rparr>,
                empty_slot],
             remote := \<lparr> next_oid = 3, objects = [(2, [7, 8, 9])], refused = [] \<rparr>,
             issued := [(5100273696, 5100273696), (536870960, 9126805552),
                        (5637144576, 5637144576)],
             payloads := [[], [7, 8, 9], []]\<rparr>"
  let ?v = "one_file 1 3 [7, 8, 9] []"
  let ?v' = "?v\<lparr>crud_file_table := [empty_slot, empty_slot],
             remote := \<lparr> next_oid = 2, objects = [(0, [0, 0])], refused = [] \<rparr>,
             issued := [(268435456, 268435456), (536870946, 536870946)],
             payloads := [[], [0, 0]]\<rparr>"
  have a: "table_inv (crud_file_table ?w)" by code_simp
  have b: "run store_env (Write 0 (Some [9]) 1) ?w = Inr (True, ?w')" by code_simp
  have c: "volume_call (Write 0 (Some [9]) 1) \<longrightarrow>
           \<not> list_ex carries_payload (issued_since ?w ?w')"
    by simp
  have d: "table_inv
     [\<lparr> filename = ''a'', object_id = 2, position = 3, length_f = 3, open_f = 1 \<rparr>, empty_slot]"
    using C10_position_within_length [OF a b c] by simp
  have e: "table_inv (crud_file_table ?v)" by code_simp
  have f: "run store_env Format ?v = Inr (True, ?v')" by code_simp
  have g: "\<not> list_ex carries_payload [(268435456, 268435456), (536870946, 536870946)]"
    by code_simp
  have since: "issued_since ?v ?v' = [(268435456, 268435456), (536870946, 536870946)]"
    by code_simp
  have h: "volume_call Format \<longrightarrow> \<not> list_ex carries_payload (issued_since ?v ?v')"
    unfolding since using g by simp
  have k: "table_inv [empty_slot, empty_slot]"
    using C10_position_within_length [OF e f h] by simp
  from a b d e f g k show ?thesis by simp
qed

text \<open>
  The claim as stated fails for \<open>crud_mount\<close>: the bytes of the directory object are
  stored over the table and nothing is checked. A client whose table has position 0 and
  length 0 in every slot mounts a store whose directory object holds position 5 and
  length 3 for the first slot; the call succeeds (returns 0) and the first slot has
  \<open>position > length\<close>.
\<close>

theorem C10_counterexample:
  "table_inv (crud_file_table stale_directory)
   \<and> crud_mount layout_env stale_directory =
       Inr (0, stale_directory
                 \<lparr>InitFlag := 1,
                  crud_file_table :=
                    [\<lparr> filename = [], object_id = 0, position = 5, length_f = 3, open_f = 0 \<rparr>,
                     empty_slot],
                  connected := True,
                  issued := [(0, 0), (805306466, 805306466)],
                  payloads := [[], []]\<rparr>)
   \<and> run layout_env Mount stale_directory =
       Inr (True, stale_directory
                 \<lparr>InitFlag := 1,
                  crud_file_table :=
                    [\<lparr> filename = [], object_id = 0, position = 5, length_f = 3, open_f = 0 \<rparr>,
                     empty_slot],
                  connected := True,
                  issued := [(0, 0), (805306466, 805306466)],
                  payloads := [[], []]\<rparr>)
   \<and> \<not> table_inv
         [\<lparr> filename = [], object_id = 0, position = 5, length_f = 3, open_f = 0 \<rparr>,
          empty_slot]
   \<and> req (parse_CrudResponse 805306466) = CRUD_READ"
  by code_simp

end
